theory Spec2Isabelle
  imports Main "HOL-Library.Word"
begin

section \<open>Errors and results\<close>

text \<open>
  Everything the JavaScript throws is a value here. \<open>RangeError\<close> and \<open>TypeError\<close> are
  the platform's own exceptions (an out-of-range Buffer read, a property read on
  \<open>null\<close>); \<open>ValidationError\<close> is the object
  \<^verbatim>\<open>{ type: 'Validation Error', message: ... }\<close> of state-helpers.js; \<open>Rejected\<close> is
  the object \<^verbatim>\<open>{ reason: ErrorReasons.X, error: ... }\<close> of tenant-client.js;
  \<open>External\<close> is whatever a collaborator outside the modelled files throws.
\<close>

datatype error_reason = NO_OFFER | HOST_INVALID | HOST_INACTIVE | INTERNAL_ERR
  | NO_TOKEN | TRANSACTION_FAILURE | TIMEOUT

datatype error = RangeError | TypeError | ValidationError string
  | Rejected error_reason string | External string

definition bindE :: "error + 'a \<Rightarrow> ('a \<Rightarrow> error + 'b) \<Rightarrow> error + 'b" where
  "bindE m f = (case m of Inl e \<Rightarrow> Inl e | Inr x \<Rightarrow> f x)"

section \<open>The platform: Buffer\<close>

type_synonym byte = "8 word"
type_synonym buffer = "byte list"

text \<open>\<^verbatim>\<open>buf.slice(start, end)\<close> and \<^verbatim>\<open>buf.slice(start)\<close> for non-negative
  bounds: both bounds are clamped to the length, an end before the start gives the
  empty buffer.\<close>

definition slice :: "buffer \<Rightarrow> nat \<Rightarrow> nat \<Rightarrow> buffer" where
  "slice buf start end = take (end - start) (drop start buf)"

definition slice_from :: "buffer \<Rightarrow> nat \<Rightarrow> buffer" where
  "slice_from buf start = drop start buf"

text \<open>Big-endian value of a run of bytes.\<close>

definition be_nat :: "buffer \<Rightarrow> nat" where
  "be_nat bs = foldl (\<lambda>acc b. 256 * acc + unat b) 0 bs"

text \<open>The fixed-width reads throw a RangeError when the field does not fit.\<close>

definition read_be :: "nat \<Rightarrow> buffer \<Rightarrow> nat \<Rightarrow> error + nat" where
  "read_be width buf off =
     (if off + width \<le> length buf then Inr (be_nat (take width (drop off buf)))
      else Inl RangeError)"

definition readUInt8 :: "buffer \<Rightarrow> nat \<Rightarrow> error + nat" where
  "readUInt8 = read_be 1"

definition readUInt16BE :: "buffer \<Rightarrow> nat \<Rightarrow> error + nat" where
  "readUInt16BE = read_be 2"

definition readUInt32BE :: "buffer \<Rightarrow> nat \<Rightarrow> error + nat" where
  "readUInt32BE = read_be 4"

definition readBigUInt64BE :: "buffer \<Rightarrow> nat \<Rightarrow> error + nat" where
  "readBigUInt64BE = read_be 8"

definition readBigInt64BE :: "buffer \<Rightarrow> nat \<Rightarrow> error + int" where
  "readBigInt64BE buf off =
     bindE (read_be 8 buf off)
       (\<lambda>n. Inr (if n < 2 ^ 63 then int n else int n - 2 ^ 64))"

text \<open>\<^verbatim>\<open>Buffer.allocUnsafe(n)\<close> gives \<open>n\<close> bytes of whatever the allocator holds;
  \<open>mem\<close> is that content. \<^verbatim>\<open>Buffer.alloc(n, 0)\<close> gives zeros.\<close>

definition allocUnsafe :: "(nat \<Rightarrow> byte) \<Rightarrow> nat \<Rightarrow> buffer" where
  "allocUnsafe mem n = map mem [0..<n]"

definition alloc :: "nat \<Rightarrow> byte \<Rightarrow> buffer" where
  "alloc n fill = replicate n fill"

definition writeUInt8 :: "buffer \<Rightarrow> nat \<Rightarrow> nat \<Rightarrow> error + buffer" where
  "writeUInt8 buf v off =
     (if 255 < v then Inl RangeError
      else if off < length buf then Inr (buf[off := of_nat v])
      else Inl RangeError)"

definition writeInt16BE :: "buffer \<Rightarrow> int \<Rightarrow> nat \<Rightarrow> error + buffer" where
  "writeInt16BE buf v off =
     (if v < - (2 ^ 15) \<or> 2 ^ 15 \<le> v then Inl RangeError
      else if off + 2 \<le> length buf
      then Inr (buf[off := of_int (v div 256), off + 1 := of_int v])
      else Inl RangeError)"

text \<open>\<^verbatim>\<open>source.copy(target, targetStart, sourceStart, sourceEnd)\<close>: a source start
  beyond the source throws, everything else is clamped to what fits.\<close>

definition copy :: "buffer \<Rightarrow> buffer \<Rightarrow> nat \<Rightarrow> nat \<Rightarrow> nat \<Rightarrow> error + buffer" where
  "copy source target targetStart sourceStart sourceEnd =
     (if length source < sourceStart then Inl RangeError
      else let chunk = take (min (sourceEnd - sourceStart) (length target - targetStart))
                            (drop sourceStart source)
           in Inr (take targetStart target @ chunk
                   @ drop (targetStart + length chunk) target))"

text \<open>\<^verbatim>\<open>a.compare(b)\<close> orders two buffers bytewise; \<^verbatim>\<open>a.compare(b, 0, n)\<close>
  compares \<open>a\<close> with the first \<open>n\<close> bytes of \<open>b\<close> and throws when \<open>b\<close> is shorter
  than \<open>n\<close>.\<close>

fun compare :: "buffer \<Rightarrow> buffer \<Rightarrow> int" where
  "compare [] [] = 0"
| "compare [] (y # ys) = - 1"
| "compare (x # xs) [] = 1"
| "compare (x # xs) (y # ys) =
     (if x = y then compare xs ys else if x < y then - 1 else 1)"

definition compare_range :: "buffer \<Rightarrow> buffer \<Rightarrow> nat \<Rightarrow> nat \<Rightarrow> error + int" where
  "compare_range source target targetStart targetEnd =
     (if length target < targetEnd then Inl RangeError
      else Inr (compare source (slice target targetStart targetEnd)))"

subsection \<open>Hexadecimal text\<close>

definition hex_digit :: "nat \<Rightarrow> char" where
  "hex_digit n = ''0123456789abcdef'' ! n"

definition byte_to_hex :: "byte \<Rightarrow> string" where
  "byte_to_hex b = [hex_digit (unat b div 16), hex_digit (unat b mod 16)]"

text \<open>\<^verbatim>\<open>buf.toString('hex')\<close>: two lower-case digits a byte.\<close>

definition toString_hex :: "buffer \<Rightarrow> string" where
  "toString_hex buf = concat (map byte_to_hex buf)"

text \<open>\<^verbatim>\<open>s.toUpperCase()\<close> on the letters a HOL character can hold in ASCII.\<close>

definition upper_char :: "char \<Rightarrow> char" where
  "upper_char c =
     (let n = (of_char c :: nat) in if 97 \<le> n \<and> n \<le> 122 then char_of (n - 32) else c)"

definition toUpperCase :: "string \<Rightarrow> string" where
  "toUpperCase s = map upper_char s"

definition unhex :: "char \<Rightarrow> nat option" where
  "unhex c =
     (let n = (of_char c :: nat) in
      if 48 \<le> n \<and> n \<le> 57 then Some (n - 48)
      else if 97 \<le> n \<and> n \<le> 102 then Some (n - 87)
      else if 65 \<le> n \<and> n \<le> 70 then Some (n - 55)
      else None)"

text \<open>\<^verbatim>\<open>Buffer.from(s, 'hex')\<close>: decodes pair by pair and stops at the first pair
  that is not two hexadecimal digits; a trailing single character is dropped.\<close>

fun from_hex :: "string \<Rightarrow> buffer" where
  "from_hex (a # b # rest) =
     (case unhex a of None \<Rightarrow> []
      | Some x \<Rightarrow> (case unhex b of None \<Rightarrow> []
         | Some y \<Rightarrow> of_nat (16 * x + y) # from_hex rest))"
| "from_hex [a] = []"
| "from_hex [] = []"

text \<open>\<^verbatim>\<open>Buffer.from(s, 'utf-8')\<close> for ASCII text: one byte a character.\<close>

definition from_utf8 :: "string \<Rightarrow> buffer" where
  "from_utf8 s = map of_char s"

section \<open>state-helpers.js: constants\<close>

definition HOST_TOKEN_ID_OFFSET :: nat where "HOST_TOKEN_ID_OFFSET = 0"
definition HOST_COUNTRY_CODE_OFFSET :: nat where "HOST_COUNTRY_CODE_OFFSET = 32"
definition HOST_RESERVED_OFFSET :: nat where "HOST_RESERVED_OFFSET = 34"
definition HOST_DESCRIPTION_OFFSET :: nat where "HOST_DESCRIPTION_OFFSET = 42"
definition HOST_REG_LEDGER_OFFSET :: nat where "HOST_REG_LEDGER_OFFSET = 68"
definition HOST_REG_FEE_OFFSET :: nat where "HOST_REG_FEE_OFFSET = 76"
definition HOST_TOT_INS_COUNT_OFFSET :: nat where "HOST_TOT_INS_COUNT_OFFSET = 84"
definition HOST_ACT_INS_COUNT_OFFSET :: nat where "HOST_ACT_INS_COUNT_OFFSET = 88"
definition HOST_HEARTBEAT_TIMESTAMP_OFFSET :: nat where "HOST_HEARTBEAT_TIMESTAMP_OFFSET = 92"
definition HOST_VERSION_OFFSET :: nat where "HOST_VERSION_OFFSET = 100"
definition HOST_REG_TIMESTAMP_OFFSET :: nat where "HOST_REG_TIMESTAMP_OFFSET = 103"
definition HOST_TRANSFER_FLAG_OFFSET :: nat where "HOST_TRANSFER_FLAG_OFFSET = 111"
definition HOST_LAST_VOTE_CANDIDATE_IDX_OFFSET :: nat where
  "HOST_LAST_VOTE_CANDIDATE_IDX_OFFSET = 112"
definition HOST_LAST_VOTE_TIMESTAMP_OFFSET :: nat where "HOST_LAST_VOTE_TIMESTAMP_OFFSET = 116"
definition HOST_SUPPORT_VOTE_FLAG_OFFSET :: nat where "HOST_SUPPORT_VOTE_FLAG_OFFSET = 124"

definition STATE_KEY_TYPES_TOKEN_ID :: nat where "STATE_KEY_TYPES_TOKEN_ID = 2"
definition STATE_KEY_TYPES_HOST_ADDR :: nat where "STATE_KEY_TYPES_HOST_ADDR = 3"
definition STATE_KEY_TYPES_TRANSFEREE_ADDR :: nat where "STATE_KEY_TYPES_TRANSFEREE_ADDR = 4"
definition STATE_KEY_TYPES_CANDIDATE_OWNER :: nat where "STATE_KEY_TYPES_CANDIDATE_OWNER = 5"
definition STATE_KEY_TYPES_CANDIDATE_ID :: nat where "STATE_KEY_TYPES_CANDIDATE_ID = 6"

definition EVERNODE_PREFIX :: string where "EVERNODE_PREFIX = ''EVR''"
definition HOST_ADDR_KEY_ZERO_COUNT :: nat where "HOST_ADDR_KEY_ZERO_COUNT = 8"
definition TRANSFEREE_ADDR_KEY_ZERO_COUNT :: nat where "TRANSFEREE_ADDR_KEY_ZERO_COUNT = 8"
definition CANDIDATE_OWNER_KEY_ZERO_COUNT :: nat where "CANDIDATE_OWNER_KEY_ZERO_COUNT = 8"
definition HOOK_STATE_LEDGER_TYPE_PREFIX :: int where "HOOK_STATE_LEDGER_TYPE_PREFIX = 118"
definition PENDING_TRANSFER :: nat where "PENDING_TRANSFER = 1"

section \<open>Collaborators outside the modelled files\<close>

text \<open>
  The files call into packages and modules that are not part of the modelled sources.
  Each is a parameter, so every theorem holds whatever they compute:
  \<^item> \<open>decodeAccountID\<close>, \<open>encodeAccountID\<close>: ripple-address-codec; both throw on
    malformed input;
  \<^item> \<open>xfl_toString\<close>: \<^verbatim>\<open>XflHelpers.toString\<close>, from a signed 64-bit value to decimal
    text;
  \<^item> \<open>sha512\<close>: the digest of \<^verbatim>\<open>crypto.createHash('sha512')\<close>; \<open>sha512Half\<close>: the
    function of that name in xrpl-binary-codec;
  \<^item> \<open>toString_utf8\<close>: \<^verbatim>\<open>buf.toString()\<close>, the platform's UTF-8 decoder.
\<close>

record collaborators =
  decodeAccountID :: "string \<Rightarrow> error + buffer"
  encodeAccountID :: "buffer \<Rightarrow> error + string"
  xfl_toString :: "int \<Rightarrow> error + string"
  sha512 :: "buffer \<Rightarrow> buffer"
  sha512Half :: "buffer \<Rightarrow> buffer"
  toString_utf8 :: "buffer \<Rightarrow> string"

text \<open>The constants of evernode-common.js that the modelled files read.\<close>

datatype hook_state_key = PREFIX_HOST_ADDR | PREFIX_HOST_TOKENID | PREFIX_TRANSFEREE_ADDR
  | PREFIX_CANDIDATE_OWNER | PREFIX_CANDIDATE_ID | HOST_COUNT | MOMENT_BASE_INFO
  | HOST_REG_FEE | MAX_REG | REGISTRY_ADDR | HEARTBEAT_ADDR | EVR_ISSUER_ADDR
  | FOUNDATION_ADDR | MOMENT_SIZE | HOST_HEARTBEAT_FREQ | LEASE_ACQUIRE_WINDOW
  | MINT_LIMIT | FIXED_REG_FEE | REWARD_CONFIGURATION | REWARD_INFO
  | MAX_TOLERABLE_DOWNTIME | MOMENT_TRANSIT_INFO | MAX_TRX_EMISSION_FEE
  | GOVERNANCE_CONFIGURATION | GOVERNANCE_INFO

record evernode_common =
  HookStateKeys :: "hook_state_key \<Rightarrow> string"
  HOOK_NAMESPACE :: string
  LEASE_TOKEN_PREFIX_HEX :: string
  TOKEN_PREFIX_HEX :: string
  CANDIDATE_SUPPORTED :: nat
  CANDIDATE_ELECTED :: nat
  CANDIDATE_VETOED :: nat
  CANDIDATE_EXPIRED :: nat
  Piloted :: nat
  CoPiloted :: nat
  AutoPiloted :: nat
  NewHook :: nat
  ACQUIRE_LEASE :: string
  EXTEND_LEASE :: string
  BASE64 :: string
  PARAM_EVENT_TYPE_KEY :: string
  PARAM_EVENT_DATA1_KEY :: string
  EVR :: string

section \<open>state-helpers.js: key generation\<close>

text \<open>The loop \<^verbatim>\<open>for (let i = 0; i < count; i++) buf.writeUInt8(0, i + 1)\<close>.\<close>

function zero_loop :: "nat \<Rightarrow> nat \<Rightarrow> buffer \<Rightarrow> error + buffer" where
  "zero_loop i count buf =
     (if i < count
      then bindE (writeUInt8 buf 0 (i + 1)) (\<lambda>buf'. zero_loop (i + 1) count buf')
      else Inr buf)"
  by pat_completeness auto
termination
  by (relation "measure (\<lambda>(i, count, buf). count - i)") auto

declare zero_loop.simps [simp del]

text \<open>\<^verbatim>\<open>Buffer.from(b, "hex")\<close> on a buffer \<open>b\<close> copies it.\<close>

definition generateHostAddrStateKey ::
  "collaborators \<Rightarrow> (nat \<Rightarrow> byte) \<Rightarrow> string \<Rightarrow> error + string" where
  "generateHostAddrStateKey co mem address =
     bindE (writeUInt8 (allocUnsafe mem 9) STATE_KEY_TYPES_HOST_ADDR 0) (\<lambda>buf0.
     bindE (zero_loop 0 HOST_ADDR_KEY_ZERO_COUNT buf0) (\<lambda>buf.
     bindE (decodeAccountID co address) (\<lambda>addrBuf.
       let stateKeyBuf = concat [from_utf8 EVERNODE_PREFIX, buf, addrBuf]
       in Inr (toUpperCase (toString_hex stateKeyBuf)))))"

definition generateTransfereeAddrStateKey ::
  "collaborators \<Rightarrow> (nat \<Rightarrow> byte) \<Rightarrow> string \<Rightarrow> error + string" where
  "generateTransfereeAddrStateKey co mem address =
     bindE (writeUInt8 (allocUnsafe mem 9) STATE_KEY_TYPES_TRANSFEREE_ADDR 0) (\<lambda>buf0.
     bindE (zero_loop 0 TRANSFEREE_ADDR_KEY_ZERO_COUNT buf0) (\<lambda>buf.
     bindE (decodeAccountID co address) (\<lambda>addrBuf.
       let stateKeyBuf = concat [from_utf8 EVERNODE_PREFIX, buf, addrBuf]
       in Inr (toUpperCase (toString_hex stateKeyBuf)))))"

definition generateCandidateOwnerStateKey ::
  "collaborators \<Rightarrow> (nat \<Rightarrow> byte) \<Rightarrow> string \<Rightarrow> error + string" where
  "generateCandidateOwnerStateKey co mem owner =
     bindE (writeUInt8 (allocUnsafe mem 9) STATE_KEY_TYPES_CANDIDATE_OWNER 0) (\<lambda>buf0.
     bindE (zero_loop 0 CANDIDATE_OWNER_KEY_ZERO_COUNT buf0) (\<lambda>buf.
     bindE (decodeAccountID co owner) (\<lambda>addrBuf.
       let stateKeyBuf = concat [from_utf8 EVERNODE_PREFIX, buf, addrBuf]
       in Inr (toUpperCase (toString_hex stateKeyBuf)))))"

text \<open>The hash object of \<^verbatim>\<open>crypto.createHash\<close>: it holds what it has been fed so
  far, and \<open>digest\<close> hashes that.\<close>

definition createHash :: buffer where
  "createHash = []"

definition update :: "buffer \<Rightarrow> buffer \<Rightarrow> buffer" where
  "update hash chunk = hash @ chunk"

definition digest_hex :: "collaborators \<Rightarrow> buffer \<Rightarrow> string" where
  "digest_hex co hash = toString_hex (sha512 co hash)"

definition substring :: "string \<Rightarrow> nat \<Rightarrow> nat \<Rightarrow> string" where
  "substring s start end = take (end - start) (drop start s)"

text \<open>An omitted \<open>hookNamespace\<close> (\<open>None\<close>) takes the default
  \<^verbatim>\<open>EvernodeConstants.HOOK_NAMESPACE\<close>.\<close>

definition getHookStateIndex ::
  "collaborators \<Rightarrow> evernode_common \<Rightarrow> (nat \<Rightarrow> byte) \<Rightarrow> string \<Rightarrow> string \<Rightarrow> string option
    \<Rightarrow> error + string" where
  "getHookStateIndex co ec mem hookAccount stateKey hookNamespace_arg =
     (let hookNamespace = (case hookNamespace_arg of None \<Rightarrow> HOOK_NAMESPACE ec
                           | Some ns \<Rightarrow> ns)
      in
      bindE (writeInt16BE (allocUnsafe mem 2) HOOK_STATE_LEDGER_TYPE_PREFIX 0) (\<lambda>typeBuf.
      bindE (decodeAccountID co hookAccount) (\<lambda>accIdBuf.
        let stateKeyBuf = from_hex stateKey;
            namespaceBuf = from_hex hookNamespace;
            hash = createHash;
            data = update hash typeBuf;
            data = update data accIdBuf;
            data = update data stateKeyBuf;
            data = update data namespaceBuf;
            digest = digest_hex co data
        in Inr (toUpperCase (substring digest 0 64)))))"

section \<open>JavaScript values\<close>

text \<open>
  The objects the code builds and receives. \<open>JNumber\<close> is a number with an integer
  value. An object is the list of its own properties in insertion order.
\<close>

datatype js_value = JUndefined | JNull | JBool bool | JNumber int | JString string
  | JBuffer buffer | JArray "js_value list" | JObject "(string \<times> js_value) list"

text \<open>
  Doubles are not modelled. The one place where the code makes a number from decimal
  text keeps the text: \<open>ParseFloat s\<close> is the number \<^verbatim>\<open>parseFloat(s)\<close>, the double
  nearest to what \<open>s\<close> denotes, while \<open>DecimalText s\<close> is the string \<open>s\<close> itself.
\<close>

datatype lease_amount = DecimalText string | ParseFloat string

definition parseFloat :: "string \<Rightarrow> lease_amount" where
  "parseFloat s = ParseFloat s"

section \<open>The platform: base64\<close>

text \<open>The standard alphabet: \<open>A\<close> to \<open>Z\<close>, \<open>a\<close> to \<open>z\<close>, \<open>0\<close> to \<open>9\<close>, \<open>+\<close> and \<open>/\<close>.\<close>

definition base64_char :: "nat \<Rightarrow> char" where
  "base64_char n =
     (if n < 26 then char_of (n + 65)
      else if n < 52 then char_of (n + 71)
      else if n < 62 then char_of (n - 4)
      else if n = 62 then CHR ''+''
      else CHR ''/'')"

text \<open>\<^verbatim>\<open>buf.toString('base64')\<close>: three bytes give four characters, the last group
  is padded with \<open>=\<close>.\<close>

fun toString_base64 :: "buffer \<Rightarrow> string" where
  "toString_base64 (a # b # c # rest) =
     [base64_char (unat a div 4),
      base64_char (unat a mod 4 * 16 + unat b div 16),
      base64_char (unat b mod 16 * 4 + unat c div 64),
      base64_char (unat c mod 64)] @ toString_base64 rest"
| "toString_base64 [a, b] =
     [base64_char (unat a div 4),
      base64_char (unat a mod 4 * 16 + unat b div 16),
      base64_char (unat b mod 16 * 4),
      CHR ''='']"
| "toString_base64 [a] =
     [base64_char (unat a div 4),
      base64_char (unat a mod 4 * 16),
      CHR ''='', CHR ''='']"
| "toString_base64 [] = []"

text \<open>The decoder's table: both the standard and the URL-safe alphabet.\<close>

definition unbase64 :: "char \<Rightarrow> nat option" where
  "unbase64 c =
     (let n = (of_char c :: nat) in
      if 65 \<le> n \<and> n \<le> 90 then Some (n - 65)
      else if 97 \<le> n \<and> n \<le> 122 then Some (n - 71)
      else if 48 \<le> n \<and> n \<le> 57 then Some (n + 4)
      else if n = 43 \<or> n = 45 then Some 62
      else if n = 47 \<or> n = 95 then Some 63
      else None)"

fun sextets_to_bytes :: "nat list \<Rightarrow> buffer" where
  "sextets_to_bytes (a # b # c # d # rest) =
     [of_nat (a * 4 + b div 16), of_nat (b mod 16 * 16 + c div 4), of_nat (c mod 4 * 64 + d)]
     @ sextets_to_bytes rest"
| "sextets_to_bytes [a, b, c] = [of_nat (a * 4 + b div 16), of_nat (b mod 16 * 16 + c div 4)]"
| "sextets_to_bytes [a, b] = [of_nat (a * 4 + b div 16)]"
| "sextets_to_bytes [a] = []"
| "sextets_to_bytes [] = []"

text \<open>\<^verbatim>\<open>Buffer.from(s, 'base64')\<close>: decoding stops at the first \<open>=\<close>, characters
  outside the table are skipped.\<close>

definition sextets :: "string \<Rightarrow> nat list" where
  "sextets s = List.map_filter unbase64 (takeWhile (\<lambda>c. c \<noteq> CHR ''='') s)"

definition from_base64 :: "string \<Rightarrow> buffer" where
  "from_base64 s = sextets_to_bytes (sextets s)"

section \<open>util-helpers.js\<close>

text \<open>Modelled from the spec: \<^verbatim>\<open>TransactionHelper.hexToASCII\<close>, of
  transaction-helper.js, which is not among the modelled files. The spec gives the
  decode chain of the token URI as hex, then ASCII text, then base64, then raw bytes:
  this is the first step, one character for each pair of hexadecimal digits.\<close>

definition hexToASCII :: "string \<Rightarrow> string" where
  "hexToASCII hex = map (\<lambda>b. char_of (unat b)) (from_hex hex)"

record lease_descriptor =
  leaseIndex :: nat
  halfTos :: buffer
  leaseAmount :: lease_amount

text \<open>\<^verbatim>\<open>LEASE_TOKEN_PREFIX_HEX.length / 2\<close> is a fraction when the length is odd, and
  a read at a fractional offset throws.\<close>

definition decodeLeaseNftUri ::
  "collaborators \<Rightarrow> evernode_common \<Rightarrow> string \<Rightarrow> error + lease_descriptor" where
  "decodeLeaseNftUri co ec hexUri =
     (if odd (length (LEASE_TOKEN_PREFIX_HEX ec)) then Inl RangeError
      else
        let prefixLen = length (LEASE_TOKEN_PREFIX_HEX ec) div 2;
            halfToSLen = 16;
            uriBuf = from_hex hexUri
        in
        bindE (readUInt16BE uriBuf prefixLen) (\<lambda>index.
        bindE (readBigInt64BE uriBuf (prefixLen + 2 + halfToSLen)) (\<lambda>xfl.
        bindE (xfl_toString co xfl) (\<lambda>text.
          Inr \<lparr> leaseIndex = index,
                halfTos = slice uriBuf (prefixLen + 2) halfToSLen,
                leaseAmount = parseFloat text \<rparr>))))"

definition decodeLeaseTokenUri ::
  "collaborators \<Rightarrow> evernode_common \<Rightarrow> string \<Rightarrow> error + lease_descriptor" where
  "decodeLeaseTokenUri co ec hexUri =
     (let asciiUri = hexToASCII hexUri;
          uriBuf = from_base64 asciiUri
      in
      if odd (length (LEASE_TOKEN_PREFIX_HEX ec)) then Inl RangeError
      else
        let prefixLen = length (LEASE_TOKEN_PREFIX_HEX ec) div 2;
            halfToSLen = 16
        in
        bindE (readUInt16BE uriBuf prefixLen) (\<lambda>index.
        bindE (readBigInt64BE uriBuf (prefixLen + 2 + halfToSLen)) (\<lambda>xfl.
        bindE (xfl_toString co xfl) (\<lambda>text.
          Inr \<lparr> leaseIndex = index,
                halfTos = slice uriBuf (prefixLen + 2) halfToSLen,
                leaseAmount = parseFloat text \<rparr>))))"

section \<open>state-helpers.js: decoders\<close>

subsection \<open>Objects, numbers and text\<close>

text \<open>Assignment to a property keeps the position of a property that exists and
  appends a new one; the spread \<^verbatim>\<open>{ ...base, ...extra }\<close> assigns the properties
  of \<open>extra\<close> in their order.\<close>

fun set_prop :: "(string \<times> js_value) list \<Rightarrow> string \<Rightarrow> js_value \<Rightarrow> (string \<times> js_value) list"
  where
  "set_prop [] k v = [(k, v)]"
| "set_prop ((k', v') # ps) k v =
     (if k' = k then (k, v) # ps else (k', v') # set_prop ps k v)"

definition spread :: "(string \<times> js_value) list \<Rightarrow> (string \<times> js_value) list
    \<Rightarrow> (string \<times> js_value) list" where
  "spread base extra = foldl (\<lambda>obj (k, v). set_prop obj k v) base extra"

fun bit_length :: "nat \<Rightarrow> nat" where
  "bit_length n = (if n = 0 then 0 else Suc (bit_length (n div 2)))"

declare bit_length.simps [simp del]

text \<open>\<^verbatim>\<open>Number(x)\<close> for a BigInt \<open>x\<close>: the double nearest to \<open>x\<close>, ties to the
  even significand. A double has 53 significant bits, so every integer below \<open>2^53\<close>
  is kept and a larger one is rounded to a multiple of a power of two.\<close>

definition js_Number :: "int \<Rightarrow> int" where
  "js_Number x =
     (let a = nat \<bar>x\<bar>;
          e = bit_length a - 53;
          q = a div 2 ^ e;
          r = a mod 2 ^ e;
          q' = (if 2 ^ e < 2 * r \<or> (2 * r = 2 ^ e \<and> odd q) then q + 1 else q)
      in sgn x * int (q' * 2 ^ e))"

fun decimal :: "nat \<Rightarrow> string" where
  "decimal n =
     (if n < 10 then [''0123456789'' ! n]
      else decimal (n div 10) @ [''0123456789'' ! (n mod 10)])"

declare decimal.simps [simp del]

text \<open>\<^verbatim>\<open>s.replace(/\0/g, '')\<close> and \<^verbatim>\<open>s.replace(/\x00+$/, '')\<close>.\<close>

definition remove_nul :: "string \<Rightarrow> string" where
  "remove_nul s = filter (\<lambda>c. c \<noteq> CHR 0x00) s"

definition trim_trailing_nul :: "string \<Rightarrow> string" where
  "trim_trailing_nul s = rev (dropWhile (\<lambda>c. c = CHR 0x00) (rev s))"

definition hex_upper :: "buffer \<Rightarrow> string" where
  "hex_upper buf = toUpperCase (toString_hex buf)"

datatype StateTypes = TOKEN_ID | HOST_ADDR | SIGLETON | CONFIGURATION | TRANSFEREE_ADDR
  | CANDIDATE_OWNER | CANDIDATE_ID

fun StateTypes_text :: "StateTypes \<Rightarrow> string" where
  "StateTypes_text TOKEN_ID = ''tokenId''"
| "StateTypes_text HOST_ADDR = ''hostAddr''"
| "StateTypes_text SIGLETON = ''singleton''"
| "StateTypes_text CONFIGURATION = ''configuration''"
| "StateTypes_text TRANSFEREE_ADDR = ''transfereeAddr''"
| "StateTypes_text CANDIDATE_OWNER = ''candidateOwner''"
| "StateTypes_text CANDIDATE_ID = ''candidateId''"

definition JType :: "StateTypes \<Rightarrow> js_value" where
  "JType t = JString (StateTypes_text t)"

definition JNat :: "nat \<Rightarrow> js_value" where
  "JNat n = JNumber (int n)"

definition TRANSFER_STATES_NO_TRANSFER :: nat where "TRANSFER_STATES_NO_TRANSFER = 0"
definition TRANSFER_STATES_HAS_A_TRANSFER :: nat where "TRANSFER_STATES_HAS_A_TRANSFER = 1"
definition MOMENT_TYPES_LEDGER :: nat where "MOMENT_TYPES_LEDGER = 0"
definition HOST_EMAIL_ADDRESS_LEN :: nat where "HOST_EMAIL_ADDRESS_LEN = 40"

definition HOST_ADDRESS_OFFSET :: nat where "HOST_ADDRESS_OFFSET = 0"
definition HOST_CPU_MODEL_NAME_OFFSET :: nat where "HOST_CPU_MODEL_NAME_OFFSET = 20"
definition HOST_CPU_COUNT_OFFSET :: nat where "HOST_CPU_COUNT_OFFSET = 60"
definition HOST_CPU_SPEED_OFFSET :: nat where "HOST_CPU_SPEED_OFFSET = 62"
definition HOST_CPU_MICROSEC_OFFSET :: nat where "HOST_CPU_MICROSEC_OFFSET = 64"
definition HOST_RAM_MB_OFFSET :: nat where "HOST_RAM_MB_OFFSET = 68"
definition HOST_DISK_MB_OFFSET :: nat where "HOST_DISK_MB_OFFSET = 72"
definition HOST_EMAIL_ADDRESS_OFFSET :: nat where "HOST_EMAIL_ADDRESS_OFFSET = 76"

definition PREV_HOST_ADDRESS_OFFSET :: nat where "PREV_HOST_ADDRESS_OFFSET = 0"
definition TRANSFER_LEDGER_IDX_OFFSET :: nat where "TRANSFER_LEDGER_IDX_OFFSET = 20"
definition TRANSFERRED_NFT_ID_OFFSET :: nat where "TRANSFERRED_NFT_ID_OFFSET = 28"

definition CANDIDATE_GOVERNOR_HOOK_HASH_OFFSET :: nat where
  "CANDIDATE_GOVERNOR_HOOK_HASH_OFFSET = 0"
definition CANDIDATE_REGISTRY_HOOK_HASH_OFFSET :: nat where
  "CANDIDATE_REGISTRY_HOOK_HASH_OFFSET = 32"
definition CANDIDATE_HEARTBEAT_HOOK_HASH_OFFSET :: nat where
  "CANDIDATE_HEARTBEAT_HOOK_HASH_OFFSET = 64"

definition CANDIDATE_OWNER_ADDRESS_OFFSET :: nat where "CANDIDATE_OWNER_ADDRESS_OFFSET = 0"
definition CANDIDATE_IDX_OFFSET :: nat where "CANDIDATE_IDX_OFFSET = 20"
definition CANDIDATE_SHORT_NAME_OFFSET :: nat where "CANDIDATE_SHORT_NAME_OFFSET = 24"
definition CANDIDATE_CREATED_TIMESTAMP_OFFSET :: nat where
  "CANDIDATE_CREATED_TIMESTAMP_OFFSET = 44"
definition CANDIDATE_PROPOSAL_FEE_OFFSET :: nat where "CANDIDATE_PROPOSAL_FEE_OFFSET = 52"
definition CANDIDATE_POSITIVE_VOTE_COUNT_OFFSET :: nat where
  "CANDIDATE_POSITIVE_VOTE_COUNT_OFFSET = 60"
definition CANDIDATE_LAST_VOTE_TIMESTAMP_OFFSET :: nat where
  "CANDIDATE_LAST_VOTE_TIMESTAMP_OFFSET = 64"
definition CANDIDATE_STATUS_OFFSET :: nat where "CANDIDATE_STATUS_OFFSET = 72"
definition CANDIDATE_STATUS_CHANGE_TIMESTAMP_OFFSET :: nat where
  "CANDIDATE_STATUS_CHANGE_TIMESTAMP_OFFSET = 73"
definition CANDIDATE_FOUNDATION_VOTE_STATUS_OFFSET :: nat where
  "CANDIDATE_FOUNDATION_VOTE_STATUS_OFFSET = 81"

subsection \<open>Entity decoders\<close>

text \<open>The properties of the object literal are evaluated in the order written, so the
  first read that does not fit decides the error. The assignment after the literal adds
  \<open>registrationTimestamp\<close> as the last property.\<close>

definition decodeHostAddressState ::
  "collaborators \<Rightarrow> buffer \<Rightarrow> buffer \<Rightarrow> error + (string \<times> js_value) list" where
  "decodeHostAddressState co stateKeyBuf stateDataBuf =
     bindE (encodeAccountID co (slice_from stateKeyBuf 12)) (\<lambda>address.
     let uriTokenId = hex_upper (slice stateDataBuf HOST_TOKEN_ID_OFFSET HOST_COUNTRY_CODE_OFFSET);
         countryCode = toString_utf8 co
           (slice stateDataBuf HOST_COUNTRY_CODE_OFFSET HOST_RESERVED_OFFSET);
         description = remove_nul (toString_utf8 co
           (slice stateDataBuf HOST_DESCRIPTION_OFFSET HOST_REG_LEDGER_OFFSET))
     in
     bindE (readBigUInt64BE stateDataBuf HOST_REG_LEDGER_OFFSET) (\<lambda>registrationLedger.
     bindE (readBigUInt64BE stateDataBuf HOST_REG_FEE_OFFSET) (\<lambda>registrationFee.
     bindE (readUInt32BE stateDataBuf HOST_TOT_INS_COUNT_OFFSET) (\<lambda>maxInstances.
     bindE (readUInt32BE stateDataBuf HOST_ACT_INS_COUNT_OFFSET) (\<lambda>activeInstances.
     bindE (readBigUInt64BE stateDataBuf HOST_HEARTBEAT_TIMESTAMP_OFFSET) (\<lambda>lastHeartbeatIndex.
     bindE (readUInt8 stateDataBuf HOST_VERSION_OFFSET) (\<lambda>v0.
     bindE (readUInt8 stateDataBuf (HOST_VERSION_OFFSET + 1)) (\<lambda>v1.
     bindE (readUInt8 stateDataBuf (HOST_VERSION_OFFSET + 2)) (\<lambda>v2.
     bindE (readUInt8 stateDataBuf HOST_TRANSFER_FLAG_OFFSET) (\<lambda>transferFlag.
     bindE (readUInt32BE stateDataBuf HOST_LAST_VOTE_CANDIDATE_IDX_OFFSET) (\<lambda>lastVoteCandidateIdx.
     bindE (readBigUInt64BE stateDataBuf HOST_LAST_VOTE_TIMESTAMP_OFFSET) (\<lambda>lastVoteTimestamp.
     bindE (readUInt8 stateDataBuf HOST_SUPPORT_VOTE_FLAG_OFFSET) (\<lambda>supportVoteSent.
     let data =
       [(''address'', JString address),
        (''uriTokenId'', JString uriTokenId),
        (''countryCode'', JString countryCode),
        (''description'', JString description),
        (''registrationLedger'', JNumber (js_Number (int registrationLedger))),
        (''registrationFee'', JNumber (js_Number (int registrationFee))),
        (''maxInstances'', JNat maxInstances),
        (''activeInstances'', JNat activeInstances),
        (''lastHeartbeatIndex'', JNumber (js_Number (int lastHeartbeatIndex))),
        (''version'', JString (decimal v0 @ ''.'' @ decimal v1 @ ''.'' @ decimal v2)),
        (''isATransferer'', JNat (if transferFlag = PENDING_TRANSFER
           then TRANSFER_STATES_HAS_A_TRANSFER else TRANSFER_STATES_NO_TRANSFER)),
        (''lastVoteCandidateIdx'', JNat lastVoteCandidateIdx),
        (''lastVoteTimestamp'', JNumber (js_Number (int lastVoteTimestamp))),
        (''supportVoteSent'', JNat supportVoteSent)]
     in
     if HOST_REG_TIMESTAMP_OFFSET < length stateDataBuf
     then bindE (readBigUInt64BE stateDataBuf HOST_REG_TIMESTAMP_OFFSET) (\<lambda>registrationTimestamp.
       Inr (set_prop data ''registrationTimestamp''
              (JNumber (js_Number (int registrationTimestamp)))))
     else Inr data)))))))))))))"

definition decodeTokenIdState ::
  "collaborators \<Rightarrow> buffer \<Rightarrow> error + (string \<times> js_value) list" where
  "decodeTokenIdState co stateDataBuf =
     bindE (encodeAccountID co
              (slice stateDataBuf HOST_ADDRESS_OFFSET HOST_CPU_MODEL_NAME_OFFSET)) (\<lambda>address.
     let cpuModelName = trim_trailing_nul (toString_utf8 co
           (slice stateDataBuf HOST_CPU_MODEL_NAME_OFFSET HOST_CPU_COUNT_OFFSET))
     in
     bindE (readUInt16BE stateDataBuf HOST_CPU_COUNT_OFFSET) (\<lambda>cpuCount.
     bindE (readUInt16BE stateDataBuf HOST_CPU_SPEED_OFFSET) (\<lambda>cpuMHz.
     bindE (readUInt32BE stateDataBuf HOST_CPU_MICROSEC_OFFSET) (\<lambda>cpuMicrosec.
     bindE (readUInt32BE stateDataBuf HOST_RAM_MB_OFFSET) (\<lambda>ramMb.
     bindE (readUInt32BE stateDataBuf HOST_DISK_MB_OFFSET) (\<lambda>diskMb.
     Inr [(''address'', JString address),
          (''cpuModelName'', JString cpuModelName),
          (''cpuCount'', JNat cpuCount),
          (''cpuMHz'', JNat cpuMHz),
          (''cpuMicrosec'', JNat cpuMicrosec),
          (''ramMb'', JNat ramMb),
          (''diskMb'', JNat diskMb),
          (''email'', JString (remove_nul (toString_utf8 co
             (slice stateDataBuf HOST_EMAIL_ADDRESS_OFFSET
                (HOST_EMAIL_ADDRESS_OFFSET + HOST_EMAIL_ADDRESS_LEN)))))]))))))"

definition decodeTransfereeAddrState ::
  "collaborators \<Rightarrow> (nat \<Rightarrow> byte) \<Rightarrow> buffer \<Rightarrow> buffer \<Rightarrow> error + (string \<times> js_value) list"
  where
  "decodeTransfereeAddrState co mem stateKeyBuf stateDataBuf =
     bindE (encodeAccountID co
              (slice stateDataBuf PREV_HOST_ADDRESS_OFFSET TRANSFER_LEDGER_IDX_OFFSET))
       (\<lambda>prevHostClassicAddress.
     bindE (encodeAccountID co (slice_from stateKeyBuf 12)) (\<lambda>futureOwnerAddress.
     bindE (generateHostAddrStateKey co mem prevHostClassicAddress) (\<lambda>prevHostAddressKey.
     bindE (readBigUInt64BE stateDataBuf TRANSFER_LEDGER_IDX_OFFSET) (\<lambda>transferLedgerIdx.
     Inr [(''futureOwnerAddress'', JString futureOwnerAddress),
          (''prevHostAddressKey'', JString prevHostAddressKey),
          (''prevHostAddress'', JString prevHostClassicAddress),
          (''transferLedgerIdx'', JNumber (js_Number (int transferLedgerIdx))),
          (''transferredNfTokenId'',
             JString (hex_upper (slice stateDataBuf TRANSFERRED_NFT_ID_OFFSET 60)))]))))"

definition getNewHookCandidateId ::
  "collaborators \<Rightarrow> evernode_common \<Rightarrow> buffer \<Rightarrow> error + string" where
  "getNewHookCandidateId co ec hashesBuf =
     bindE (writeUInt8 (alloc 32 0) (NewHook ec) 4) (\<lambda>idBuf.
     let half = sha512Half co hashesBuf in
     bindE (copy half idBuf 5 5 (length half)) (\<lambda>idBuf.
     Inr (hex_upper idBuf)))"

definition decodeCandidateOwnerState ::
  "collaborators \<Rightarrow> evernode_common \<Rightarrow> buffer \<Rightarrow> buffer
    \<Rightarrow> error + (string \<times> js_value) list" where
  "decodeCandidateOwnerState co ec stateKeyBuf stateDataBuf =
     bindE (encodeAccountID co (slice_from stateKeyBuf 12)) (\<lambda>ownerAddress.
     bindE (getNewHookCandidateId co ec stateDataBuf) (\<lambda>uniqueId.
     Inr [(''ownerAddress'', JString ownerAddress),
          (''uniqueId'', JString uniqueId),
          (''governorHookHash'', JString (hex_upper (slice stateDataBuf
             CANDIDATE_GOVERNOR_HOOK_HASH_OFFSET CANDIDATE_REGISTRY_HOOK_HASH_OFFSET))),
          (''registryHookHash'', JString (hex_upper (slice stateDataBuf
             CANDIDATE_REGISTRY_HOOK_HASH_OFFSET CANDIDATE_HEARTBEAT_HOOK_HASH_OFFSET))),
          (''heartbeatHookHash'', JString (hex_upper (slice stateDataBuf
             CANDIDATE_HEARTBEAT_HOOK_HASH_OFFSET
             (CANDIDATE_HEARTBEAT_HOOK_HASH_OFFSET + 32))))]))"

definition decodeCandidateIdState ::
  "collaborators \<Rightarrow> evernode_common \<Rightarrow> buffer \<Rightarrow> error + (string \<times> js_value) list" where
  "decodeCandidateIdState co ec stateDataBuf =
     bindE (readUInt8 stateDataBuf CANDIDATE_STATUS_OFFSET) (\<lambda>statusByte.
     let status =
       (if statusByte = CANDIDATE_SUPPORTED ec then ''supported''
        else if statusByte = CANDIDATE_ELECTED ec then ''elected''
        else if statusByte = CANDIDATE_VETOED ec then ''vetoed''
        else if statusByte = CANDIDATE_EXPIRED ec then ''expired''
        else ''rejected'')
     in
     bindE (encodeAccountID co
              (slice stateDataBuf CANDIDATE_OWNER_ADDRESS_OFFSET CANDIDATE_IDX_OFFSET))
       (\<lambda>ownerAddress.
     bindE (readUInt32BE stateDataBuf CANDIDATE_IDX_OFFSET) (\<lambda>index.
     let shortName = trim_trailing_nul (toString_utf8 co
           (slice stateDataBuf CANDIDATE_SHORT_NAME_OFFSET CANDIDATE_CREATED_TIMESTAMP_OFFSET))
     in
     bindE (readBigUInt64BE stateDataBuf CANDIDATE_CREATED_TIMESTAMP_OFFSET) (\<lambda>createdTimestamp.
     bindE (readBigInt64BE stateDataBuf CANDIDATE_PROPOSAL_FEE_OFFSET) (\<lambda>feeXfl.
     bindE (xfl_toString co feeXfl) (\<lambda>proposalFee.
     bindE (readUInt32BE stateDataBuf CANDIDATE_POSITIVE_VOTE_COUNT_OFFSET) (\<lambda>positiveVoteCount.
     bindE (readBigUInt64BE stateDataBuf CANDIDATE_LAST_VOTE_TIMESTAMP_OFFSET) (\<lambda>lastVoteTimestamp.
     bindE (readBigUInt64BE stateDataBuf CANDIDATE_STATUS_CHANGE_TIMESTAMP_OFFSET)
       (\<lambda>statusChangeTimestamp.
     bindE (readUInt8 stateDataBuf CANDIDATE_FOUNDATION_VOTE_STATUS_OFFSET) (\<lambda>foundationVote.
     Inr [(''ownerAddress'', JString ownerAddress),
          (''index'', JNat index),
          (''shortName'', JString shortName),
          (''createdTimestamp'', JNumber (js_Number (int createdTimestamp))),
          (''proposalFee'', JString proposalFee),
          (''positiveVoteCount'', JNat positiveVoteCount),
          (''lastVoteTimestamp'', JNumber (js_Number (int lastVoteTimestamp))),
          (''status'', JString status),
          (''statusChangeTimestamp'', JNumber (js_Number (int statusChangeTimestamp))),
          (''foundationVoteStatus'', JString
             (if foundationVote = CANDIDATE_SUPPORTED ec then ''supported''
              else ''rejected''))]))))))))))"

subsection \<open>Dispatch on the key\<close>

definition EPOCH_OFFSET :: nat where
  "EPOCH_OFFSET = 0"
definition SAVED_MOMENT_OFFSET :: nat where
  "SAVED_MOMENT_OFFSET = 1"
definition PREV_MOMENT_ACTIVE_HOST_COUNT_OFFSET :: nat where
  "PREV_MOMENT_ACTIVE_HOST_COUNT_OFFSET = 5"
definition CUR_MOMENT_ACTIVE_HOST_COUNT_OFFSET :: nat where
  "CUR_MOMENT_ACTIVE_HOST_COUNT_OFFSET = 9"
definition EPOCH_POOL_OFFSET :: nat where
  "EPOCH_POOL_OFFSET = 13"
definition EPOCH_COUNT_OFFSET :: nat where
  "EPOCH_COUNT_OFFSET = 0"
definition FIRST_EPOCH_REWARD_QUOTA_OFFSET :: nat where
  "FIRST_EPOCH_REWARD_QUOTA_OFFSET = 1"
definition EPOCH_REWARD_AMOUNT_OFFSET :: nat where
  "EPOCH_REWARD_AMOUNT_OFFSET = 5"
definition REWARD_START_MOMENT_OFFSET :: nat where
  "REWARD_START_MOMENT_OFFSET = 9"
definition TRANSIT_IDX_OFFSET :: nat where
  "TRANSIT_IDX_OFFSET = 0"
definition TRANSIT_MOMENT_SIZE_OFFSET :: nat where
  "TRANSIT_MOMENT_SIZE_OFFSET = 8"
definition TRANSIT_MOMENT_TYPE_OFFSET :: nat where
  "TRANSIT_MOMENT_TYPE_OFFSET = 10"
definition MOMENT_BASE_POINT_OFFSET :: nat where
  "MOMENT_BASE_POINT_OFFSET = 0"
definition MOMENT_AT_TRANSITION_OFFSET :: nat where
  "MOMENT_AT_TRANSITION_OFFSET = 8"
definition MOMENT_TYPE_OFFSET :: nat where
  "MOMENT_TYPE_OFFSET = 12"
definition ELIGIBILITY_PERIOD_OFFSET :: nat where
  "ELIGIBILITY_PERIOD_OFFSET = 0"
definition CANDIDATE_LIFE_PERIOD_OFFSET :: nat where
  "CANDIDATE_LIFE_PERIOD_OFFSET = 4"
definition CANDIDATE_ELECTION_PERIOD_OFFSET :: nat where
  "CANDIDATE_ELECTION_PERIOD_OFFSET = 8"
definition CANDIDATE_SUPPORT_AVERAGE_OFFSET :: nat where
  "CANDIDATE_SUPPORT_AVERAGE_OFFSET = 12"
definition GOVERNANCE_MODE_OFFSET :: nat where
  "GOVERNANCE_MODE_OFFSET = 0"
definition LAST_CANDIDATE_IDX_OFFSET :: nat where
  "LAST_CANDIDATE_IDX_OFFSET = 1"
definition VOTER_BASE_COUNT_OFFSET :: nat where
  "VOTER_BASE_COUNT_OFFSET = 5"
definition VOTER_BASE_COUNT_CHANGED_TIMESTAMP_OFFSET :: nat where
  "VOTER_BASE_COUNT_CHANGED_TIMESTAMP_OFFSET = 9"
definition FOUNDATION_LAST_VOTED_CANDIDATE_IDX :: nat where
  "FOUNDATION_LAST_VOTED_CANDIDATE_IDX = 17"
definition FOUNDATION_LAST_VOTED_TIMESTAMP_OFFSET :: nat where
  "FOUNDATION_LAST_VOTED_TIMESTAMP_OFFSET = 21"
definition ELECTED_PROPOSAL_UNIQUE_ID_OFFSET :: nat where
  "ELECTED_PROPOSAL_UNIQUE_ID_OFFSET = 29"
definition PROPOSAL_ELECTED_TIMESTAMP_OFFSET :: nat where
  "PROPOSAL_ELECTED_TIMESTAMP_OFFSET = 61"
definition UPDATED_HOOK_COUNT_OFFSET :: nat where
  "UPDATED_HOOK_COUNT_OFFSET = 69"
definition FOUNDATION_SUPPORT_VOTE_FLAG_OFFSET :: nat where
  "FOUNDATION_SUPPORT_VOTE_FLAG_OFFSET = 70"

text \<open>The two tests the dispatch repeats:
  \<^verbatim>\<open>Buffer.from(HookStateKeys.K, 'hex').compare(stateKey, 0, 4)\<close> and
  \<^verbatim>\<open>Buffer.from(HookStateKeys.K, 'hex').compare(stateKey)\<close>.\<close>

definition prefix_compare :: "evernode_common \<Rightarrow> hook_state_key \<Rightarrow> buffer \<Rightarrow> error + int" where
  "prefix_compare ec k stateKey = compare_range (from_hex (HookStateKeys ec k)) stateKey 0 4"

definition key_compare :: "evernode_common \<Rightarrow> hook_state_key \<Rightarrow> buffer \<Rightarrow> int" where
  "key_compare ec k stateKey = compare (from_hex (HookStateKeys ec k)) stateKey"

text \<open>A number used as a condition counts as true unless it is 0.\<close>

definition truthy_number :: "int \<Rightarrow> bool" where
  "truthy_number n = (n \<noteq> 0)"

definition state_object :: "StateTypes \<Rightarrow> string \<Rightarrow> js_value \<Rightarrow> js_value" where
  "state_object t hexKey v =
     JObject [(''type'', JType t), (''key'', JString hexKey), (''value'', v)]"

definition decodeStateData ::
  "collaborators \<Rightarrow> evernode_common \<Rightarrow> (nat \<Rightarrow> byte) \<Rightarrow> buffer \<Rightarrow> buffer \<Rightarrow> error + js_value"
  where
  "decodeStateData co ec mem stateKey stateData =
     (let hexKey = hex_upper stateKey in
      bindE (prefix_compare ec PREFIX_HOST_ADDR stateKey) (\<lambda>c.
      if c = 0 then
        bindE (decodeHostAddressState co stateKey stateData) (\<lambda>decoded.
        Inr (JObject (spread [(''type'', JType HOST_ADDR), (''key'', JString hexKey)] decoded)))
      else
      bindE (prefix_compare ec PREFIX_HOST_TOKENID stateKey) (\<lambda>c.
      if c = 0 then
        (let prefixBuf = from_hex (HookStateKeys ec PREFIX_HOST_ADDR) in
         bindE (copy prefixBuf (alloc 32 0) 0 0 (length prefixBuf)) (\<lambda>addressKeyBuf.
         bindE (copy stateData addressKeyBuf 12 HOST_ADDRESS_OFFSET HOST_CPU_MODEL_NAME_OFFSET)
           (\<lambda>addressKeyBuf.
         bindE (decodeTokenIdState co stateData) (\<lambda>decoded.
         Inr (JObject (spread [(''type'', JType TOKEN_ID), (''key'', JString hexKey),
                               (''addressKey'', JString (hex_upper addressKeyBuf))]
                         decoded))))))
      else
      bindE (prefix_compare ec PREFIX_TRANSFEREE_ADDR stateKey) (\<lambda>c.
      if c = 0 then
        bindE (decodeTransfereeAddrState co mem stateKey stateData) (\<lambda>decoded.
        Inr (JObject (spread [(''type'', JType TRANSFEREE_ADDR), (''key'', JString hexKey)]
                        decoded)))
      else
      bindE (prefix_compare ec PREFIX_CANDIDATE_OWNER stateKey) (\<lambda>c.
      if c = 0 then
        bindE (decodeCandidateOwnerState co ec stateKey stateData) (\<lambda>decoded.
        let prefixBuf = from_hex (HookStateKeys ec PREFIX_CANDIDATE_ID) in
        bindE (copy prefixBuf (alloc 32 0) 0 0 (length prefixBuf)) (\<lambda>idBuf.
        bindE (case map_of decoded ''uniqueId'' of
                 Some (JString u) \<Rightarrow> Inr u | _ \<Rightarrow> Inl TypeError) (\<lambda>uniqueId.
        bindE (copy (from_hex uniqueId) idBuf 4 4 32) (\<lambda>idBuf.
        Inr (JObject (spread [(''type'', JType CANDIDATE_OWNER), (''key'', JString hexKey),
                              (''idKey'', JString (hex_upper idBuf))]
                        decoded))))))
      else
      bindE (prefix_compare ec PREFIX_CANDIDATE_ID stateKey) (\<lambda>c.
      if c = 0 then
        bindE (decodeCandidateIdState co ec stateData) (\<lambda>decoded.
        Inr (JObject (spread [(''type'', JType CANDIDATE_ID), (''key'', JString hexKey)]
                        decoded)))
      else if key_compare ec HOST_COUNT stateKey = 0 then
        bindE (readUInt32BE stateData 0) (\<lambda>v.
        Inr (state_object SIGLETON hexKey (JNat v)))
      else if key_compare ec MOMENT_BASE_INFO stateKey = 0 then
        bindE (readBigUInt64BE stateData MOMENT_BASE_POINT_OFFSET) (\<lambda>baseIdx.
        bindE (if MOMENT_AT_TRANSITION_OFFSET < length stateData
               then readUInt32BE stateData MOMENT_AT_TRANSITION_OFFSET else Inr 0)
          (\<lambda>baseTransitionMoment.
        bindE (if length stateData \<le> MOMENT_TYPE_OFFSET then Inr True
               else bindE (readUInt8 stateData MOMENT_TYPE_OFFSET)
                      (\<lambda>t. Inr (t = MOMENT_TYPES_LEDGER))) (\<lambda>ledger.
        Inr (state_object SIGLETON hexKey (JObject
          [(''baseIdx'', JNumber (js_Number (int baseIdx))),
           (''baseTransitionMoment'', JNat baseTransitionMoment),
           (''momentType'', JString (if ledger then ''ledger'' else ''timestamp''))])))))
      else if key_compare ec HOST_REG_FEE stateKey = 0 \<or> key_compare ec MAX_REG stateKey = 0 then
        bindE (readBigUInt64BE stateData 0) (\<lambda>v.
        Inr (state_object SIGLETON hexKey (JNumber (js_Number (int v)))))
      else if key_compare ec REGISTRY_ADDR stateKey = 0
            \<or> key_compare ec HEARTBEAT_ADDR stateKey = 0
            \<or> key_compare ec EVR_ISSUER_ADDR stateKey = 0
            \<or> key_compare ec FOUNDATION_ADDR stateKey = 0 then
        bindE (encodeAccountID co stateData) (\<lambda>v.
        Inr (state_object CONFIGURATION hexKey (JString v)))
      else if key_compare ec MOMENT_SIZE stateKey = 0
            \<or> key_compare ec HOST_HEARTBEAT_FREQ stateKey = 0
            \<or> key_compare ec LEASE_ACQUIRE_WINDOW stateKey = 0 then
        bindE (readUInt16BE stateData 0) (\<lambda>v.
        Inr (state_object CONFIGURATION hexKey (JNat v)))
      else if key_compare ec MINT_LIMIT stateKey = 0
            \<or> key_compare ec FIXED_REG_FEE stateKey = 0 then
        bindE (readBigUInt64BE stateData 0) (\<lambda>v.
        Inr (state_object CONFIGURATION hexKey (JNumber (js_Number (int v)))))
      else if key_compare ec REWARD_CONFIGURATION stateKey = 0 then
        bindE (readUInt8 stateData EPOCH_COUNT_OFFSET) (\<lambda>epochCount.
        bindE (readUInt32BE stateData FIRST_EPOCH_REWARD_QUOTA_OFFSET) (\<lambda>firstEpochRewardQuota.
        bindE (readUInt32BE stateData EPOCH_REWARD_AMOUNT_OFFSET) (\<lambda>epochRewardAmount.
        bindE (readUInt32BE stateData REWARD_START_MOMENT_OFFSET) (\<lambda>rewardStartMoment.
        Inr (state_object CONFIGURATION hexKey (JObject
          [(''epochCount'', JNat epochCount),
           (''firstEpochRewardQuota'', JNat firstEpochRewardQuota),
           (''epochRewardAmount'', JNat epochRewardAmount),
           (''rewardStartMoment'', JNat rewardStartMoment)]))))))
      else if key_compare ec REWARD_INFO stateKey = 0 then
        bindE (readUInt8 stateData EPOCH_OFFSET) (\<lambda>epoch.
        bindE (readUInt32BE stateData SAVED_MOMENT_OFFSET) (\<lambda>savedMoment.
        bindE (readUInt32BE stateData PREV_MOMENT_ACTIVE_HOST_COUNT_OFFSET) (\<lambda>prevCount.
        bindE (readUInt32BE stateData CUR_MOMENT_ACTIVE_HOST_COUNT_OFFSET) (\<lambda>curCount.
        bindE (readBigInt64BE stateData EPOCH_POOL_OFFSET) (\<lambda>poolXfl.
        bindE (xfl_toString co poolXfl) (\<lambda>epochPool.
        Inr (state_object SIGLETON hexKey (JObject
          [(''epoch'', JNat epoch),
           (''savedMoment'', JNat savedMoment),
           (''prevMomentActiveHostCount'', JNat prevCount),
           (''curMomentActiveHostCount'', JNat curCount),
           (''epochPool'', JString epochPool)]))))))))
      else if key_compare ec MAX_TOLERABLE_DOWNTIME stateKey = 0 then
        bindE (readUInt16BE stateData 0) (\<lambda>v.
        Inr (state_object CONFIGURATION hexKey (JNat v)))
      else if key_compare ec MOMENT_TRANSIT_INFO stateKey = 0 then
        bindE (readUInt8 (alloc 1 0) 0) (\<lambda>unused.
        bindE (readBigInt64BE stateData TRANSIT_IDX_OFFSET) (\<lambda>transitionIndex.
        bindE (readUInt16BE stateData TRANSIT_MOMENT_SIZE_OFFSET) (\<lambda>momentSize.
        bindE (readUInt8 stateData TRANSIT_MOMENT_TYPE_OFFSET) (\<lambda>t.
        Inr (state_object CONFIGURATION hexKey (JObject
          [(''transitionIndex'', JNumber (js_Number transitionIndex)),
           (''momentSize'', JNat momentSize),
           (''momentType'', JString (if t = MOMENT_TYPES_LEDGER then ''ledger''
                                     else ''timestamp''))]))))))
      else if key_compare ec MAX_TRX_EMISSION_FEE stateKey = 0 then
        bindE (readBigUInt64BE stateData 0) (\<lambda>v.
        Inr (state_object CONFIGURATION hexKey (JNumber (js_Number (int v)))))
      else if key_compare ec GOVERNANCE_CONFIGURATION stateKey = 0 then
        bindE (readUInt32BE stateData ELIGIBILITY_PERIOD_OFFSET) (\<lambda>eligibilityPeriod.
        bindE (readUInt32BE stateData CANDIDATE_LIFE_PERIOD_OFFSET) (\<lambda>candidateLifePeriod.
        bindE (readUInt32BE stateData CANDIDATE_ELECTION_PERIOD_OFFSET) (\<lambda>electionPeriod.
        bindE (readUInt16BE stateData CANDIDATE_SUPPORT_AVERAGE_OFFSET) (\<lambda>supportAverage.
        Inr (state_object CONFIGURATION hexKey (JObject
          [(''eligibilityPeriod'', JNat eligibilityPeriod),
           (''candidateLifePeriod'', JNat candidateLifePeriod),
           (''candidateElectionPeriod'', JNat electionPeriod),
           (''candidateSupportAverage'', JNat supportAverage)]))))))
      else if key_compare ec GOVERNANCE_INFO stateKey = 0 then
        bindE (readUInt8 stateData GOVERNANCE_MODE_OFFSET) (\<lambda>modeByte.
        let mode =
          (if modeByte = Piloted ec then ''piloted''
           else if modeByte = CoPiloted ec then ''co-piloted''
           else if modeByte = AutoPiloted ec then ''auto-piloted''
           else ''undefined'')
        in
        bindE (readUInt32BE stateData LAST_CANDIDATE_IDX_OFFSET) (\<lambda>lastCandidateIdx.
        bindE (readUInt32BE stateData VOTER_BASE_COUNT_OFFSET) (\<lambda>voteBaseCount.
        bindE (readBigUInt64BE stateData VOTER_BASE_COUNT_CHANGED_TIMESTAMP_OFFSET)
          (\<lambda>voteBaseCountChanged.
        bindE (readUInt32BE stateData FOUNDATION_LAST_VOTED_CANDIDATE_IDX) (\<lambda>foundationIdx.
        bindE (readBigUInt64BE stateData FOUNDATION_LAST_VOTED_TIMESTAMP_OFFSET)
          (\<lambda>foundationTimestamp.
        bindE (readUInt32BE stateData ELECTED_PROPOSAL_UNIQUE_ID_OFFSET) (\<lambda>electedId.
        bindE (readBigUInt64BE stateData PROPOSAL_ELECTED_TIMESTAMP_OFFSET)
          (\<lambda>electedTimestamp.
        bindE (readUInt8 stateData UPDATED_HOOK_COUNT_OFFSET) (\<lambda>updatedHookCount.
        bindE (readUInt8 stateData FOUNDATION_SUPPORT_VOTE_FLAG_OFFSET) (\<lambda>supportVoteSent.
        Inr (state_object CONFIGURATION hexKey (JObject
          [(''governanceMode'', JString mode),
           (''lastCandidateIdx'', JNat lastCandidateIdx),
           (''voteBaseCount'', JNat voteBaseCount),
           (''voteBaseCountChangedTimestamp'', JNumber (js_Number (int voteBaseCountChanged))),
           (''foundationLastVotedCandidateIdx'', JNat foundationIdx),
           (''foundationLastVotedTimestamp'', JNumber (js_Number (int foundationTimestamp))),
           (''electedProposalUniqueId'', JNat electedId),
           (''proposalElectedTimestamp'', JNumber (js_Number (int electedTimestamp))),
           (''updatedHookCount'', JNat updatedHookCount),
           (''supportVoteSent'', JNat supportVoteSent)]))))))))))))
      else Inl (ValidationError ''Invalid state key.'')))))))"

text \<open>In the last test of \<open>decodeStateKey\<close> the operand for \<open>HOST_HEARTBEAT_FREQ\<close>
  is the number \<open>compare\<close> returns, where every other operand compares that number
  with 0.\<close>

definition key_info :: "string \<Rightarrow> StateTypes \<Rightarrow> js_value" where
  "key_info hexKey t = JObject [(''key'', JString hexKey), (''type'', JType t)]"

definition decodeStateKey :: "evernode_common \<Rightarrow> buffer \<Rightarrow> error + js_value" where
  "decodeStateKey ec stateKey =
     (let hexKey = hex_upper stateKey in
      bindE (prefix_compare ec PREFIX_HOST_ADDR stateKey) (\<lambda>c.
      if c = 0 then Inr (key_info hexKey HOST_ADDR)
      else
      bindE (prefix_compare ec PREFIX_HOST_TOKENID stateKey) (\<lambda>c.
      if c = 0 then Inr (key_info hexKey TOKEN_ID)
      else
      bindE (prefix_compare ec PREFIX_TRANSFEREE_ADDR stateKey) (\<lambda>c.
      if c = 0 then Inr (key_info hexKey TRANSFEREE_ADDR)
      else
      bindE (prefix_compare ec PREFIX_CANDIDATE_ID stateKey) (\<lambda>c.
      if c = 0 then Inr (key_info hexKey CANDIDATE_ID)
      else
      bindE (prefix_compare ec PREFIX_CANDIDATE_OWNER stateKey) (\<lambda>c.
      if c = 0 then Inr (key_info hexKey CANDIDATE_OWNER)
      else if key_compare ec HOST_COUNT stateKey = 0
            \<or> key_compare ec MOMENT_BASE_INFO stateKey = 0
            \<or> key_compare ec HOST_REG_FEE stateKey = 0
            \<or> key_compare ec MAX_REG stateKey = 0
            \<or> key_compare ec REWARD_INFO stateKey = 0 then
        Inr (key_info hexKey SIGLETON)
      else if key_compare ec EVR_ISSUER_ADDR stateKey = 0
            \<or> key_compare ec FOUNDATION_ADDR stateKey = 0
            \<or> key_compare ec MOMENT_SIZE stateKey = 0
            \<or> truthy_number (key_compare ec HOST_HEARTBEAT_FREQ stateKey)
            \<or> key_compare ec MINT_LIMIT stateKey = 0
            \<or> key_compare ec FIXED_REG_FEE stateKey = 0
            \<or> key_compare ec LEASE_ACQUIRE_WINDOW stateKey = 0
            \<or> key_compare ec REWARD_CONFIGURATION stateKey = 0
            \<or> key_compare ec MAX_TOLERABLE_DOWNTIME stateKey = 0
            \<or> key_compare ec MOMENT_TRANSIT_INFO stateKey = 0
            \<or> key_compare ec MAX_TRX_EMISSION_FEE stateKey = 0
            \<or> key_compare ec REGISTRY_ADDR stateKey = 0
            \<or> key_compare ec HEARTBEAT_ADDR stateKey = 0
            \<or> key_compare ec GOVERNANCE_CONFIGURATION stateKey = 0
            \<or> key_compare ec GOVERNANCE_INFO stateKey = 0 then
        Inr (key_info hexKey CONFIGURATION)
      else Inl (ValidationError ''Invalid state key.'')))))))"

text \<open>The keys the dispatch knows: five kinds by the first four bytes, twenty by
  the whole key. A key is unrecognized when it has none of the five prefixes and is
  none of the twenty keys.\<close>

definition prefix_kinds :: "hook_state_key list" where
  "prefix_kinds = [PREFIX_HOST_ADDR, PREFIX_HOST_TOKENID, PREFIX_TRANSFEREE_ADDR,
     PREFIX_CANDIDATE_OWNER, PREFIX_CANDIDATE_ID]"

definition well_known_keys :: "hook_state_key list" where
  "well_known_keys = [HOST_COUNT, MOMENT_BASE_INFO, HOST_REG_FEE, MAX_REG, REWARD_INFO,
     EVR_ISSUER_ADDR, FOUNDATION_ADDR, MOMENT_SIZE, HOST_HEARTBEAT_FREQ, MINT_LIMIT,
     FIXED_REG_FEE, LEASE_ACQUIRE_WINDOW, REWARD_CONFIGURATION, MAX_TOLERABLE_DOWNTIME,
     MOMENT_TRANSIT_INFO, MAX_TRX_EMISSION_FEE, REGISTRY_ADDR, HEARTBEAT_ADDR,
     GOVERNANCE_CONFIGURATION, GOVERNANCE_INFO]"

definition unrecognized :: "evernode_common \<Rightarrow> buffer \<Rightarrow> bool" where
  "unrecognized ec stateKey \<longleftrightarrow>
     list_all (\<lambda>k. from_hex (HookStateKeys ec k) \<noteq> take 4 stateKey) prefix_kinds
   \<and> list_all (\<lambda>k. from_hex (HookStateKeys ec k) \<noteq> stateKey) well_known_keys"

section \<open>clients/tenant-client.js\<close>

subsection \<open>Conditions, properties, callbacks\<close>

fun truthy :: "js_value \<Rightarrow> bool" where
  "truthy JUndefined = False"
| "truthy JNull = False"
| "truthy (JBool b) = b"
| "truthy (JNumber n) = (n \<noteq> 0)"
| "truthy (JString s) = (s \<noteq> [])"
| "truthy (JBuffer b) = True"
| "truthy (JArray xs) = True"
| "truthy (JObject ps) = True"

text \<open>\<^verbatim>\<open>a || b\<close>.\<close>

definition js_or :: "js_value \<Rightarrow> js_value \<Rightarrow> js_value" where
  "js_or a b = (if truthy a then a else b)"

text \<open>\<^verbatim>\<open>v.name\<close>: reading a property of \<open>undefined\<close> or \<open>null\<close> throws; an object
  gives the property or \<open>undefined\<close>; a number, string, boolean, buffer or array gives
  \<open>undefined\<close> for the names read here, none of which their prototypes define.\<close>

fun get_prop :: "js_value \<Rightarrow> string \<Rightarrow> error + js_value" where
  "get_prop JUndefined k = Inl TypeError"
| "get_prop JNull k = Inl TypeError"
| "get_prop (JObject ps) k = Inr (case map_of ps k of None \<Rightarrow> JUndefined | Some v \<Rightarrow> v)"
| "get_prop v k = Inr JUndefined"

text \<open>A parameter with a default, \<^verbatim>\<open>options = {}\<close>: the default replaces
  \<open>undefined\<close> only.\<close>

definition default_param :: "js_value \<Rightarrow> js_value \<Rightarrow> js_value" where
  "default_param v d = (if v = JUndefined then d else v)"

text \<open>The spread \<^verbatim>\<open>{ ...base, ...v }\<close> of a value: an object gives its properties,
  \<open>undefined\<close>, \<open>null\<close>, numbers and booleans give none, a string, buffer or array
  gives one property for each index. The new object lists its properties as JavaScript
  enumerates them: first the keys that are array indices (the decimal text, without
  leading zeros, of a number below \<open>2^32 - 1\<close>) in ascending order, then the other keys
  in the order in which they were created.\<close>

definition indexed :: "js_value list \<Rightarrow> (string \<times> js_value) list" where
  "indexed xs = map (\<lambda>(i, x). (decimal i, x)) (enumerate 0 xs)"

definition digit_value :: "char \<Rightarrow> int option" where
  "digit_value c =
     (let n = (of_char c :: int) in if 48 \<le> n \<and> n \<le> 57 then Some (n - 48) else None)"

fun parse_digits :: "int \<Rightarrow> string \<Rightarrow> int option" where
  "parse_digits acc [] = Some acc"
| "parse_digits acc (c # cs) =
     (case digit_value c of None \<Rightarrow> None | Some d \<Rightarrow> parse_digits (10 * acc + d) cs)"

definition array_index :: "string \<Rightarrow> int option" where
  "array_index k =
     (if k = [] \<or> 10 < length k then None
      else case parse_digits 0 k of
             None \<Rightarrow> None
           | Some n \<Rightarrow>
               if (k = ''0'' \<or> hd k \<noteq> CHR ''0'') \<and> n < 4294967295 then Some n else None)"

definition own_property_order :: "(string \<times> js_value) list \<Rightarrow> (string \<times> js_value) list" where
  "own_property_order ps =
     sort_key (\<lambda>(k, v). case array_index k of None \<Rightarrow> 0 | Some n \<Rightarrow> n)
       (filter (\<lambda>(k, v). array_index k \<noteq> None) ps)
     @ filter (\<lambda>(k, v). array_index k = None) ps"

fun own_properties :: "js_value \<Rightarrow> (string \<times> js_value) list" where
  "own_properties (JObject ps) = ps"
| "own_properties (JString s) = indexed (map (\<lambda>c. JString [c]) s)"
| "own_properties (JBuffer b) = indexed (map (\<lambda>x. JNat (unat x)) b)"
| "own_properties (JArray xs) = indexed xs"
| "own_properties v = []"

definition spread_value :: "(string \<times> js_value) list \<Rightarrow> js_value \<Rightarrow> (string \<times> js_value) list"
  where
  "spread_value base v = own_property_order (spread base (own_properties v))"

text \<open>The body of an arrow function is an expression, whose value it returns, or a
  block of statements, which returns what a \<open>return\<close> statement gives and \<open>undefined\<close>
  when it ends without one. The expressions are pure, so a statement holds the value
  of its expression.\<close>

datatype statement = ExprStmt js_value | Return js_value

fun run_block :: "statement list \<Rightarrow> js_value" where
  "run_block [] = JUndefined"
| "run_block (ExprStmt v # rest) = run_block rest"
| "run_block (Return v # rest) = v"

datatype arrow_body = Expression js_value | Block "statement list"

fun arrow_result :: "arrow_body \<Rightarrow> js_value" where
  "arrow_result (Expression v) = v"
| "arrow_result (Block stmts) = run_block stmts"

text \<open>\<^verbatim>\<open>xs.find(f)\<close>: the first element for which \<open>f\<close> returns a true value.\<close>

definition js_find :: "('a \<Rightarrow> arrow_body) \<Rightarrow> 'a list \<Rightarrow> 'a option" where
  "js_find f xs = List.find (\<lambda>x. truthy (arrow_result (f x))) xs"

definition startsWith :: "string \<Rightarrow> string \<Rightarrow> bool" where
  "startsWith s p = (take (length p) s = p)"

subsection \<open>The ledger and the other modules\<close>

record uri_token =
  index :: string
  URI :: string
  Issuer :: string

text \<open>
  What the client reaches through \<^verbatim>\<open>this.xrplAcc\<close>, \<^verbatim>\<open>this.xrplApi\<close>,
  \<^verbatim>\<open>this.config\<close>, \<^verbatim>\<open>XrplAccount\<close>, \<^verbatim>\<open>EvernodeHelpers\<close>, \<^verbatim>\<open>EncryptionHelper\<close>
  and the base client. An account is its address. \<open>getURITokens\<close> and
  \<open>getLeaseOffers\<close> give a list or a value that counts as false (\<open>None\<close>).
  \<open>product_toString m a\<close> is the text of the double \<^verbatim>\<open>m * a\<close>.
\<close>

record tenant_env =
  getURITokens :: "string \<Rightarrow> error + uri_token list option"
  getHostInfo :: "string \<Rightarrow> error + js_value"
  getLeaseOffers :: "string \<Rightarrow> error + uri_token list option"
  getMessageKey :: "string \<Rightarrow> error + js_value"
  encrypt :: "js_value \<Rightarrow> js_value \<Rightarrow> js_value \<Rightarrow> error + js_value"
  buyURIToken :: "uri_token \<Rightarrow> js_value \<Rightarrow> js_value \<Rightarrow> error + js_value"
  makePayment :: "string \<Rightarrow> string \<Rightarrow> string \<Rightarrow> string \<Rightarrow> js_value \<Rightarrow> js_value
    \<Rightarrow> error + js_value"
  product_toString :: "int \<Rightarrow> lease_amount \<Rightarrow> string"
  tenantAddress :: string
  registryAddress :: string
  evrIssuerAddress :: string
  ledgerIndex :: js_value

definition DEFAULT_WAIT_TIMEOUT :: int where
  "DEFAULT_WAIT_TIMEOUT = 60000"

subsection \<open>Submitting\<close>

definition getLeaseHost :: "tenant_env \<Rightarrow> evernode_common \<Rightarrow> string \<Rightarrow> error + string" where
  "getLeaseHost te ec hostAddress =
     (let host = hostAddress in
      bindE (getURITokens te host) (\<lambda>tokens.
      case tokens of None \<Rightarrow> Inl TypeError
      | Some tokens \<Rightarrow>
        (case js_find (\<lambda>n. Expression (JBool (startsWith (URI n) (TOKEN_PREFIX_HEX ec)))) tokens
         of None \<Rightarrow> Inl (Rejected HOST_INVALID ''Host is not registered.'')
         | Some uriToken \<Rightarrow>
           if Issuer uriToken \<noteq> registryAddress te
           then Inl (Rejected HOST_INVALID ''Host is not registered.'')
           else
             bindE (getHostInfo te host) (\<lambda>hostInfo.
             if \<not> truthy hostInfo
             then Inl (Rejected HOST_INVALID ''Host is not registered.'')
             else
               bindE (get_prop hostInfo ''active'') (\<lambda>active.
               if \<not> truthy active then Inl (Rejected HOST_INACTIVE ''Host is not active.'')
               else Inr host)))))"

text \<open>With \<open>leaseOfferIndex\<close> given, the offer is looked up with the callback
  \<^verbatim>\<open>uriOffer => { uriOffer.index === selectedOfferIndex }\<close>: a block whose only
  statement is the comparison.\<close>

definition acquireLeaseSubmit ::
  "tenant_env \<Rightarrow> evernode_common \<Rightarrow> string \<Rightarrow> js_value \<Rightarrow> js_value \<Rightarrow> error + js_value" where
  "acquireLeaseSubmit te ec hostAddress requirement options_arg =
     (let options = default_param options_arg (JObject []) in
      bindE (getLeaseHost te ec hostAddress) (\<lambda>hostAcc.
      bindE (get_prop options ''leaseOfferIndex'') (\<lambda>selectedOfferIndex.
      bindE (getLeaseOffers te hostAcc) (\<lambda>uriTokenOffers.
      let buyUriOffer =
        (if \<not> truthy selectedOfferIndex
         then (case uriTokenOffers of None \<Rightarrow> None
               | Some offers \<Rightarrow> (case offers of [] \<Rightarrow> None | first # rest \<Rightarrow> Some first))
         else (case uriTokenOffers of None \<Rightarrow> None
               | Some offers \<Rightarrow>
                   js_find (\<lambda>uriOffer.
                     Block [ExprStmt (JBool (JString (index uriOffer) = selectedOfferIndex))])
                     offers))
      in
      case buyUriOffer of
        None \<Rightarrow> Inl (Rejected NO_OFFER ''No offers available.'')
      | Some offer \<Rightarrow>
          bindE (getMessageKey te hostAcc) (\<lambda>encKey.
          if \<not> truthy encKey then Inl (Rejected INTERNAL_ERR ''Host encryption key not set.'')
          else
            bindE (get_prop options ''iv'') (\<lambda>iv.
            bindE (get_prop options ''ephemPrivateKey'') (\<lambda>ephemPrivateKey.
            bindE (encrypt te encKey requirement
                     (JObject [(''iv'', iv), (''ephemPrivateKey'', ephemPrivateKey)]))
              (\<lambda>ecrypted.
            bindE (get_prop options ''transactionOptions'') (\<lambda>transactionOptions.
            buyURIToken te offer
              (JArray [JObject [(''type'', JString (ACQUIRE_LEASE ec)),
                                (''format'', JString (BASE64 ec)),
                                (''data'', ecrypted)]])
              (JObject (spread_value
                 [(''hookParams'', JArray [JObject
                     [(''name'', JString (PARAM_EVENT_TYPE_KEY ec)),
                      (''value'', JString (ACQUIRE_LEASE ec))]])]
                 transactionOptions)))))))))))"

definition extendLeaseSubmit ::
  "tenant_env \<Rightarrow> evernode_common \<Rightarrow> string \<Rightarrow> int \<Rightarrow> lease_amount \<Rightarrow> string \<Rightarrow> js_value
    \<Rightarrow> error + js_value" where
  "extendLeaseSubmit te ec hostAddress moments amount tokenID options_arg =
     (let options = default_param options_arg (JObject []) in
      bindE (getLeaseHost te ec hostAddress) (\<lambda>host.
      bindE (get_prop options ''transactionOptions'') (\<lambda>transactionOptions.
      makePayment te host (product_toString te moments amount) (EVR ec) (evrIssuerAddress te)
        JNull
        (JObject (spread_value
           [(''hookParams'', JArray
               [JObject [(''name'', JString (PARAM_EVENT_TYPE_KEY ec)),
                         (''value'', JString (EXTEND_LEASE ec))],
                JObject [(''name'', JString (PARAM_EVENT_DATA1_KEY ec)),
                         (''value'', JString tokenID)]])]
           transactionOptions)))))"

subsection \<open>Extending a lease\<close>

text \<open>The delay with which \<open>watchExtendResponse(tx, options = {})\<close> arms its fail
  timer: \<^verbatim>\<open>options.timeout || DEFAULT_WAIT_TIMEOUT\<close>. A call binds the first two
  arguments to the two parameters; a missing argument is \<open>undefined\<close>, further
  arguments are not bound.\<close>

definition watchExtendResponse_timeout :: "js_value \<Rightarrow> js_value \<Rightarrow> error + js_value" where
  "watchExtendResponse_timeout tx options_arg =
     (let options = default_param options_arg (JObject []) in
      bindE (get_prop options ''timeout'') (\<lambda>timeout.
      Inr (js_or timeout (JNumber DEFAULT_WAIT_TIMEOUT))))"

fun argument :: "js_value list \<Rightarrow> nat \<Rightarrow> js_value" where
  "argument [] n = JUndefined"
| "argument (a # as) 0 = a"
| "argument (a # as) (Suc n) = argument as n"

definition watchExtendResponse_timeout_call :: "js_value list \<Rightarrow> error + js_value" where
  "watchExtendResponse_timeout_call args =
     watchExtendResponse_timeout (argument args 0) (argument args 1)"

datatype error_code = ACQUIRE_ERR | EXTEND_ERR

datatype rejection_content = Text string | Thrown error

record rejection =
  rejection_error :: error_code
  rejection_reason :: error_reason
  rejection_content :: rejection_content

text \<open>\<^verbatim>\<open>error.reason || ErrorReasons.TRANSACTION_FAILURE\<close> and
  \<^verbatim>\<open>error.error || error\<close>, for what the client itself throws and for the errors
  of the platform and of the collaborators, which have neither property.\<close>

fun reason_or_failure :: "error \<Rightarrow> error_reason" where
  "reason_or_failure (Rejected r msg) = r"
| "reason_or_failure e = TRANSACTION_FAILURE"

fun error_or_self :: "error \<Rightarrow> rejection_content" where
  "error_or_self (Rejected r msg) = (if msg \<noteq> [] then Text msg else Thrown (Rejected r msg))"
| "error_or_self e = Thrown e"

text \<open>
  How far \<open>extendLease\<close> gets before it waits: it rejects, or it calls
  \<open>watchExtendResponse\<close> with the arguments listed, or nothing settles its promise
  (an exception inside the executor, or a transaction that counts as false).
\<close>

datatype extend_progress = Reject rejection | Unsettled "error option"
  | WatchExtend "js_value list"

definition extendLease ::
  "tenant_env \<Rightarrow> collaborators \<Rightarrow> evernode_common \<Rightarrow> string \<Rightarrow> int \<Rightarrow> string \<Rightarrow> js_value
    \<Rightarrow> extend_progress" where
  "extendLease te co ec hostAddress moments instanceName options_arg =
     (let options = default_param options_arg (JObject []);
          tokenID = instanceName
      in
      case getURITokens te (tenantAddress te) of
        Inl e \<Rightarrow> Unsettled (Some e)
      | Inr tokens \<Rightarrow>
        (case (case tokens of None \<Rightarrow> None
               | Some tokens \<Rightarrow> js_find (\<lambda>n. Expression (JBool (index n = tokenID))) tokens)
         of None \<Rightarrow>
              Reject \<lparr> rejection_error = EXTEND_ERR, rejection_reason = NO_TOKEN,
                       rejection_content =
                         Text ''Could not find the uri token for lease extend request.'' \<rparr>
         | Some uriToken \<Rightarrow>
             let minLedgerIndex = ledgerIndex te in
             (case decodeLeaseTokenUri co ec (URI uriToken) of
                Inl e \<Rightarrow> Unsettled (Some e)
              | Inr uriInfo \<Rightarrow>
                (case extendLeaseSubmit te ec hostAddress moments (leaseAmount uriInfo) tokenID
                        options
                 of Inl err \<Rightarrow>
                      Reject \<lparr> rejection_error = EXTEND_ERR,
                               rejection_reason = reason_or_failure err,
                               rejection_content = error_or_self err \<rparr>
                  | Inr tx \<Rightarrow>
                      if truthy tx then WatchExtend [tx, minLedgerIndex, options]
                      else Unsettled None))))"

subsection \<open>Watching for the response\<close>

text \<open>
  Time is counted in milliseconds from the call. Only waiting takes time: a query of
  the transaction history, with the decoding of the transactions it returns, takes its
  latency, and a sleep takes its delay. A timer that is due fires before anything else
  that happens at the same millisecond.

  \<^verbatim>\<open>setTimeout(f, delay)\<close>: a delay that is a number from 1 to \<open>2^31 - 1\<close> is used as
  it is and any other number is replaced by 1; a delay that is not a number is first
  converted by the platform (\<open>toNumber\<close>).
\<close>

fun delay_number :: "(js_value \<Rightarrow> int) \<Rightarrow> js_value \<Rightarrow> int" where
  "delay_number toNumber (JNumber n) = n"
| "delay_number toNumber v = toNumber v"

definition setTimeout_delay :: "(js_value \<Rightarrow> int) \<Rightarrow> js_value \<Rightarrow> nat" where
  "setTimeout_delay toNumber delay =
     (let after = delay_number toNumber delay in
      if 1 \<le> after \<and> after \<le> 2147483647 then nat after else 1)"

text \<open>
  What the client reaches while it watches.
  \<^item> \<open>getAccountTrx li k\<close>: query number \<open>k\<close> (from 0) of the account's transactions
    from ledger index \<open>li\<close> on: how long it takes, and the list it returns or the error
    it throws (an answer that cannot be iterated makes the loop throw, and is an error
    here).
  \<^item> \<open>extractEvernodeEvent t\<close>: what the base client extracts from the transaction \<open>t\<close>
    of that list, once its memos and hook parameters are deserialized: an event, a
    value without a name when there is none, or the error thrown on the way.
  \<^item> \<open>toNumber\<close>: the platform's conversion of a timer delay that is not a number.
  \<^item> The event names of \<^verbatim>\<open>EvernodeEvents\<close>, which \<^verbatim>\<open>TenantEvents\<close> repeats.
\<close>

record poll =
  latency :: nat
  txList :: "error + js_value list"

record watch_env =
  getAccountTrx :: "js_value \<Rightarrow> nat \<Rightarrow> poll"
  extractEvernodeEvent :: "js_value \<Rightarrow> error + js_value"
  toNumber :: "js_value \<Rightarrow> int"
  AcquireSuccess :: string
  AcquireError :: string
  ExtendSuccess :: string
  ExtendError :: string

text \<open>\<^verbatim>\<open>v?.name\<close>: \<open>undefined\<close> where \<^verbatim>\<open>v.name\<close> throws.\<close>

definition opt_prop :: "js_value \<Rightarrow> string \<Rightarrow> js_value" where
  "opt_prop v k = (case get_prop v k of Inl e \<Rightarrow> JUndefined | Inr x \<Rightarrow> x)"

text \<open>\<^verbatim>\<open>v?.a.b\<close>: \<open>undefined\<close> when \<open>v\<close> is \<open>undefined\<close> or \<open>null\<close>, and the rest of the
  chain otherwise.\<close>

definition opt_chain :: "js_value \<Rightarrow> (js_value \<Rightarrow> error + js_value) \<Rightarrow> error + js_value" where
  "opt_chain v rest = (if v = JUndefined \<or> v = JNull then Inr JUndefined else rest v)"

text \<open>\<^verbatim>\<open>a === b\<close>: values that are not objects are equal when they are the same value;
  objects are compared by identity, and no object met here is shared between the
  history and the submitted transaction.\<close>

fun is_object :: "js_value \<Rightarrow> bool" where
  "is_object (JBuffer b) = True"
| "is_object (JArray xs) = True"
| "is_object (JObject ps) = True"
| "is_object v = False"

definition strict_equals :: "js_value \<Rightarrow> js_value \<Rightarrow> bool" where
  "strict_equals a b = (a = b \<and> \<not> is_object a)"

text \<open>
  How a watch ends.
  \<^item> \<open>Resolve_with ps\<close>: \<^verbatim>\<open>resolve({...})\<close> with the properties \<open>ps\<close>.
  \<^item> \<open>Reject_event c ps\<close>: \<^verbatim>\<open>reject({ error: c, ... })\<close> with the further properties \<open>ps\<close>.
  \<^item> \<open>Reject_timeout c\<close>: \<^verbatim>\<open>reject({ error: c, reason: ErrorReasons.TIMEOUT })\<close>.
  \<^item> \<open>Reject_thrown e\<close>: the function throws \<open>e\<close> before it makes its promise.
  \<^item> \<open>Settles t s\<close>: the promise is settled with \<open>s\<close> at time \<open>t\<close>.
  \<^item> \<open>Unhandled e\<close>: the executor throws \<open>e\<close> before anything has settled the promise.
    The loop is over; whether a timer that is still armed gets to fire depends on what
    the platform does with the unhandled rejection, which is outside the model.
  \<^item> \<open>Pending\<close>: the executor ends without settling the promise, its timer cleared.
\<close>

datatype settlement =
    Resolve_with "(string \<times> js_value) list"
  | Reject_event error_code "(string \<times> js_value) list"
  | Reject_timeout error_code
  | Reject_thrown error

datatype watch_outcome = Settles nat settlement | Unhandled error | Pending






fun extend_scan :: "watch_env \<Rightarrow> js_value \<Rightarrow> js_value list \<Rightarrow> error + js_value option" where
  "extend_scan we tx_id [] = Inr None"
| "extend_scan we tx_id (t # rest) =
     bindE (extractEvernodeEvent we t) (\<lambda>res.
     if (strict_equals (opt_prop res ''name'') (JString (ExtendSuccess we))
         \<or> strict_equals (opt_prop res ''name'') (JString (ExtendError we)))
        \<and> strict_equals (opt_prop (opt_prop res ''data'') ''extendRefId'') tx_id
     then Inr (Some res)
     else extend_scan we tx_id rest)"

definition extend_settle :: "watch_env \<Rightarrow> js_value \<Rightarrow> error + settlement option" where
  "extend_settle we relevantTx =
     (if strict_equals (opt_prop relevantTx ''name'') (JString (ExtendSuccess we)) then
        bindE (opt_chain relevantTx (\<lambda>r. bindE (get_prop r ''data'') (\<lambda>data.
                 get_prop data ''transaction''))) (\<lambda>transaction.
        bindE (opt_chain relevantTx (\<lambda>r. bindE (get_prop r ''data'') (\<lambda>data.
                 get_prop data ''expiryMoment''))) (\<lambda>expiryMoment.
        bindE (opt_chain relevantTx (\<lambda>r. bindE (get_prop r ''data'') (\<lambda>data.
                 get_prop data ''extendRefId''))) (\<lambda>extendRefId.
        Inr (Some (Resolve_with [(''transaction'', transaction),
                                 (''expiryMoment'', expiryMoment),
                                 (''extendRefId'', extendRefId)])))))
      else if strict_equals (opt_prop relevantTx ''name'') (JString (ExtendError we)) then
        bindE (opt_chain relevantTx (\<lambda>r. bindE (get_prop r ''data'') (\<lambda>data.
                 get_prop data ''transaction''))) (\<lambda>transaction.
        bindE (opt_chain relevantTx (\<lambda>r. bindE (get_prop r ''data'') (\<lambda>data.
                 get_prop data ''reason''))) (\<lambda>reason.
        Inr (Some (Reject_event EXTEND_ERR
                     [(''transaction'', transaction), (''reason'', reason)]))))
      else Inr None)"

text \<open>The \<open>while\<close> loop of \<open>watchExtendResponse\<close>: the same, with a sleep of one
  second.\<close>

function extend_loop ::
  "watch_env \<Rightarrow> js_value \<Rightarrow> js_value \<Rightarrow> nat \<Rightarrow> nat \<Rightarrow> nat \<Rightarrow> watch_outcome" where
  "extend_loop we tx tx_id deadline now k =
     (if deadline \<le> now then Settles deadline (Reject_timeout EXTEND_ERR)
      else
        case bindE (get_prop tx ''details'') (\<lambda>details. get_prop details ''ledger_index'') of
          Inl e \<Rightarrow> Unhandled e
        | Inr ledger_index \<Rightarrow>
            let answer = getAccountTrx we ledger_index k;
                answered = now + latency answer
            in
            (case bindE (txList answer) (extend_scan we tx_id) of
               Inl e \<Rightarrow>
                 if deadline \<le> answered then Settles deadline (Reject_timeout EXTEND_ERR)
                 else Unhandled e
             | Inr None \<Rightarrow> extend_loop we tx tx_id deadline (answered + 1000) (Suc k)
             | Inr (Some relevantTx) \<Rightarrow>
                 if deadline \<le> answered then Settles deadline (Reject_timeout EXTEND_ERR)
                 else
                   (case extend_settle we relevantTx of
                      Inl e \<Rightarrow> Unhandled e
                    | Inr None \<Rightarrow> Pending
                    | Inr (Some s) \<Rightarrow> Settles (answered + 1000) s)))"
  by pat_completeness auto

termination
  by (relation "measure (\<lambda>(we, tx, tx_id, deadline, now, k). deadline - now)") auto

declare extend_loop.simps [simp del]

definition watchExtendResponse :: "watch_env \<Rightarrow> js_value \<Rightarrow> js_value \<Rightarrow> watch_outcome" where
  "watchExtendResponse we tx options_arg =
     (case get_prop tx ''id'' of
        Inl e \<Rightarrow> Settles 0 (Reject_thrown e)
      | Inr tx_id \<Rightarrow>
          (case watchExtendResponse_timeout tx options_arg of
             Inl e \<Rightarrow> Unhandled e
           | Inr delay \<Rightarrow>
               extend_loop we tx tx_id (setTimeout_delay (toNumber we) delay) 0 0))"

text \<open>When query number \<open>k\<close> is made if the loop gets that far: each earlier query has
  taken its latency and has been followed by the sleep.\<close>

fun query_start :: "(nat \<Rightarrow> poll) \<Rightarrow> nat \<Rightarrow> nat \<Rightarrow> nat" where
  "query_start history sleep 0 = 0"
| "query_start history sleep (Suc k) =
     query_start history sleep k + latency (history k) + sleep"

section \<open>Sample values\<close>

text \<open>
  Closed instances need values for what the modelled files take from elsewhere. The
  general statements below quantify over all of them; these are one choice, used only
  to exhibit concrete inputs.
  \<^item> Unallocated memory holds the byte \<open>EE\<close> everywhere.
  \<^item> The address codec is a table with the one entry of the ledger's genesis account.
  \<^item> The sample state key is the host address key of that account.
  \<^item> The decimal codec is a table with two entries: 0, and the scaled value of 1.
  \<^item> The digests are placeholders of the right length that show their input: the first
    64 (32) bytes of the message, padded with zeros.
  \<^item> The prefixes of the state keys are the ones the key generators above produce; the
    32-byte keys and the other constants are samples of the same shape.
\<close>

definition sample_mem :: "nat \<Rightarrow> byte" where
  "sample_mem i = 0xEE"

definition genesis_address :: string where
  "genesis_address = ''rHb9CJAWyB4rj91VRWn96DkukG4bwdtyTh''"

definition genesis_account_id :: buffer where
  "genesis_account_id =
     [0xB5, 0xF7, 0x62, 0x79, 0x8A, 0x53, 0xD5, 0x43, 0xA0, 0x14, 
      0xCA, 0xF8, 0xB2, 0x97, 0xCF, 0xF8, 0xF2, 0xF9, 0x37, 0xE8]"

definition sample_host_key :: buffer where
  "sample_host_key = [0x45, 0x56, 0x52, 0x03] @ replicate 8 0 @ genesis_account_id"

definition sample_co :: collaborators where
  "sample_co =
     \<lparr> decodeAccountID = (\<lambda>a. if a = genesis_address then Inr genesis_account_id
                              else Inl (External ''decodeAccountID'')),
       encodeAccountID = (\<lambda>b. if b = genesis_account_id then Inr genesis_address
                              else Inl (External ''encodeAccountID'')),
       xfl_toString = (\<lambda>x. if x = 0 then Inr ''0''
                           else if x = 6089866696204910592 then Inr ''1''
                           else Inl (External ''XflHelpers.toString'')),
       sha512 = (\<lambda>m. take 64 (m @ replicate 64 0)),
       sha512Half = (\<lambda>m. take 32 (m @ replicate 32 0)),
       toString_utf8 = map (\<lambda>b. char_of (unat b)) \<rparr>"

fun sample_keys :: "hook_state_key \<Rightarrow> string" where
  "sample_keys PREFIX_HOST_TOKENID = ''45565202''"
| "sample_keys PREFIX_HOST_ADDR = ''45565203''"
| "sample_keys PREFIX_TRANSFEREE_ADDR = ''45565204''"
| "sample_keys PREFIX_CANDIDATE_OWNER = ''45565205''"
| "sample_keys PREFIX_CANDIDATE_ID = ''45565206''"
| "sample_keys HOST_COUNT =
     ''4556523200000000000000000000000000000000000000000000000000000000''"
| "sample_keys MOMENT_BASE_INFO =
     ''4556523300000000000000000000000000000000000000000000000000000000''"
| "sample_keys HOST_REG_FEE =
     ''4556523400000000000000000000000000000000000000000000000000000000''"
| "sample_keys MAX_REG =
     ''4556523500000000000000000000000000000000000000000000000000000000''"
| "sample_keys REWARD_INFO =
     ''4556523600000000000000000000000000000000000000000000000000000000''"
| "sample_keys GOVERNANCE_INFO =
     ''4556523700000000000000000000000000000000000000000000000000000000''"
| "sample_keys EVR_ISSUER_ADDR =
     ''4556520100000000000000000000000000000000000000000000000000000001''"
| "sample_keys FOUNDATION_ADDR =
     ''4556520100000000000000000000000000000000000000000000000000000002''"
| "sample_keys MOMENT_SIZE =
     ''4556520100000000000000000000000000000000000000000000000000000003''"
| "sample_keys MINT_LIMIT =
     ''4556520100000000000000000000000000000000000000000000000000000004''"
| "sample_keys FIXED_REG_FEE =
     ''4556520100000000000000000000000000000000000000000000000000000005''"
| "sample_keys HOST_HEARTBEAT_FREQ =
     ''4556520100000000000000000000000000000000000000000000000000000006''"
| "sample_keys LEASE_ACQUIRE_WINDOW =
     ''4556520100000000000000000000000000000000000000000000000000000007''"
| "sample_keys REWARD_CONFIGURATION =
     ''4556520100000000000000000000000000000000000000000000000000000008''"
| "sample_keys MAX_TOLERABLE_DOWNTIME =
     ''4556520100000000000000000000000000000000000000000000000000000009''"
| "sample_keys MOMENT_TRANSIT_INFO =
     ''455652010000000000000000000000000000000000000000000000000000000A''"
| "sample_keys MAX_TRX_EMISSION_FEE =
     ''455652010000000000000000000000000000000000000000000000000000000B''"
| "sample_keys HEARTBEAT_ADDR =
     ''455652010000000000000000000000000000000000000000000000000000000C''"
| "sample_keys REGISTRY_ADDR =
     ''455652010000000000000000000000000000000000000000000000000000000D''"
| "sample_keys GOVERNANCE_CONFIGURATION =
     ''455652010000000000000000000000000000000000000000000000000000000E''"

definition sample_ec :: evernode_common where
  "sample_ec =
     \<lparr> HookStateKeys = sample_keys,
       HOOK_NAMESPACE = ''01EAF09326B4911554384121FF56FA8FECC215FDDE2EC35D9E59F2C53EC665A0'',
       LEASE_TOKEN_PREFIX_HEX = ''6576726C65617365'',
       TOKEN_PREFIX_HEX = ''657672686F7374'',
       CANDIDATE_SUPPORTED = 0, CANDIDATE_ELECTED = 1, CANDIDATE_VETOED = 2,
       CANDIDATE_EXPIRED = 3,
       Piloted = 0, CoPiloted = 1, AutoPiloted = 2,
       NewHook = 1,
       ACQUIRE_LEASE = ''evnAcquireLease'', EXTEND_LEASE = ''evnExtendLease'',
       BASE64 = ''base64'',
       PARAM_EVENT_TYPE_KEY =
         ''4556520100000000000000000000000000000000000000000000000000000002'',
       PARAM_EVENT_DATA1_KEY =
         ''4556520100000000000000000000000000000000000000000000000000000003'',
       EVR = ''EVR'' \<rparr>"

text \<open>A lease URI in its two encodings: the bytes are the prefix \<open>evrlease\<close>, the
  lease index 1, the sixteen bytes \<open>A0\<close> to \<open>AF\<close> for the half hash, and the scaled
  value \<open>54838D7EA4C68000\<close> of 1.\<close>

definition sample_lease_bytes :: buffer where
  "sample_lease_bytes =
     [0x65, 0x76, 0x72, 0x6C, 0x65, 0x61, 0x73, 0x65, 0x00, 0x01,
      0xA0, 0xA1, 0xA2, 0xA3, 0xA4, 0xA5, 0xA6, 0xA7,
      0xA8, 0xA9, 0xAA, 0xAB, 0xAC, 0xAD, 0xAE, 0xAF,
      0x54, 0x83, 0x8D, 0x7E, 0xA4, 0xC6, 0x80, 0x00]"

definition sample_nft_uri :: string where
  "sample_nft_uri =
     ''6576726C656173650001A0A1A2A3A4A5A6A7A8A9AAABACADAEAF54838D7EA4C68000''"

definition sample_token_uri :: string where
  "sample_token_uri = toUpperCase (toString_hex (from_utf8 (toString_base64 sample_lease_bytes)))"

text \<open>A host that is registered and active, with one lease offer, and a tenant that
  holds the lease token \<open>LEASE1\<close>.\<close>

definition sample_host_token :: uri_token where
  "sample_host_token =
     \<lparr> index = ''HOST1'', URI = ''657672686F737401'', Issuer = ''rRegistry'' \<rparr>"

definition sample_offer :: uri_token where
  "sample_offer = \<lparr> index = ''OFFER1'', URI = sample_nft_uri, Issuer = ''rHost'' \<rparr>"

definition sample_lease_token :: uri_token where
  "sample_lease_token = \<lparr> index = ''LEASE1'', URI = sample_token_uri, Issuer = ''rHost'' \<rparr>"

definition sample_te :: tenant_env where
  "sample_te =
     \<lparr> getURITokens = (\<lambda>a. if a = ''rHost'' then Inr (Some [sample_host_token])
                           else if a = ''rTenant'' then Inr (Some [sample_lease_token])
                           else Inr (Some [])),
       getHostInfo = (\<lambda>a. Inr (if a = ''rHost'' then JObject [(''active'', JBool True)]
                                else JNull)),
       getLeaseOffers = (\<lambda>a. Inr (Some (if a = ''rHost'' then [sample_offer] else []))),
       getMessageKey = (\<lambda>a. Inr (JString ''ED01'')),
       encrypt = (\<lambda>k requirement opts. Inr (JString ''ciphertext'')),
       buyURIToken = (\<lambda>offer memos opts. Inr (JObject [(''id'', JString ''TX1'')])),
       makePayment = (\<lambda>host amount currency issuer memos opts.
                        Inr (JObject [(''id'', JString ''TX2'')])),
       product_toString = (\<lambda>m a. ''amount''),
       tenantAddress = ''rTenant'',
       registryAddress = ''rRegistry'',
       evrIssuerAddress = ''rIssuer'',
       ledgerIndex = JNumber 7000000 \<rparr>"

text \<open>
  A history for watching: the transactions are given as the events they hold, and
  every query takes 100 ms. For the ledger index 7000000 the first answer holds an
  event of another request and the second one also the success of the acquire request
  \<open>TX1\<close> and the failure of the extend request \<open>TX1\<close>; for the ledger index 7000001
  the first answer holds the failure of the acquire request \<open>TX1\<close> and the success of
  the extend request \<open>TX1\<close>; every other answer is empty.
\<close>

definition sample_other_event :: js_value where
  "sample_other_event =
     JObject [(''name'', JString ''AcquireSuccess''),
              (''data'', JObject [(''acquireRefId'', JString ''TX0'')])]"

definition sample_acquire_success :: js_value where
  "sample_acquire_success =
     JObject [(''name'', JString ''AcquireSuccess''),
              (''data'', JObject [(''transaction'', JString ''T1''),
                                  (''payload'', JObject [(''content'', JString ''instance'')]),
                                  (''acquireRefId'', JString ''TX1'')])]"

definition sample_extend_error :: js_value where
  "sample_extend_error =
     JObject [(''name'', JString ''ExtendError''),
              (''data'', JObject [(''transaction'', JString ''T2''),
                                  (''reason'', JString ''expired''),
                                  (''extendRefId'', JString ''TX1'')])]"

definition sample_acquire_error :: js_value where
  "sample_acquire_error =
     JObject [(''name'', JString ''AcquireError''),
              (''data'', JObject [(''transaction'', JString ''T3''),
                                  (''reason'', JString ''full''),
                                  (''acquireRefId'', JString ''TX1'')])]"

definition sample_extend_success :: js_value where
  "sample_extend_success =
     JObject [(''name'', JString ''ExtendSuccess''),
              (''data'', JObject [(''transaction'', JString ''T4''),
                                  (''expiryMoment'', JNumber 50),
                                  (''extendRefId'', JString ''TX1'')])]"

definition sample_history :: "js_value \<Rightarrow> nat \<Rightarrow> poll" where
  "sample_history li k =
     \<lparr> latency = 100,
       txList = Inr (if li = JNumber 7000000 \<and> k = 0 then [sample_other_event]
                     else if li = JNumber 7000000 \<and> k = 1
                     then [sample_other_event, sample_acquire_success, sample_extend_error]
                     else if li = JNumber 7000001 \<and> k = 0
                     then [sample_acquire_error, sample_extend_success]
                     else []) \<rparr>"



text \<open>A ledger whose lease offers cannot be fetched.\<close>

definition sample_te_offline :: tenant_env where
  "sample_te_offline =
     sample_te \<lparr> getLeaseOffers := (\<lambda>a. Inl (External ''getLeaseOffers'')) \<rparr>"

section \<open>Results\<close>

lemma bindE_Inr_iff: "bindE m f = Inr y \<longleftrightarrow> (\<exists>x. m = Inr x \<and> f x = Inr y)"
  by (cases m) (simp_all add: bindE_def)

lemma bindE_Inl: "bindE (Inl e) f = Inl e"
  by (simp add: bindE_def)

lemma bindE_Inr: "bindE (Inr x) f = f x"
  by (simp add: bindE_def)

section \<open>Hexadecimal text round-trips\<close>

lemma byte_hi: "unat (b :: byte) div 16 < 16"
proof -
  have "unat b < 256" using unsigned_less[of b, where ?'a = nat] by simp
  then show ?thesis by simp
qed

lemma byte_lo: "unat (b :: byte) mod 16 < 16"
  by simp

lemma byte_nibbles: "of_nat (16 * (unat b div 16) + unat b mod 16) = (b :: byte)"
proof -
  have "16 * (unat b div 16) + unat b mod 16 = unat b" by presburger
  then show ?thesis by (simp only: of_nat_unat unsigned_eq_0_iff ucast_id)
qed


lemma hex_digit_upper_unhex: "n < 16 \<Longrightarrow> unhex (upper_char (hex_digit n)) = Some n"
proof -
  have "list_all (\<lambda>n. unhex (upper_char (hex_digit n)) = Some n) [0..<16]"
    by (simp add: upt_rec hex_digit_def unhex_def upper_char_def)
  then show "n < 16 \<Longrightarrow> unhex (upper_char (hex_digit n)) = Some n"
    by (simp add: list_all_iff)
qed


lemma from_hex_upper_byte:
  "from_hex (map upper_char (byte_to_hex b) @ rest) = b # from_hex rest"
proof -
  have "from_hex (map upper_char (byte_to_hex b) @ rest) =
        of_nat (16 * (unat b div 16) + unat b mod 16) # from_hex rest"
    by (simp only: byte_to_hex_def append_Cons append_Nil from_hex.simps list.map
        hex_digit_upper_unhex[OF byte_hi] hex_digit_upper_unhex[OF byte_lo] option.case)
  then show ?thesis by (simp only: byte_nibbles)
qed


lemma from_hex_toUpperCase: "from_hex (toUpperCase (toString_hex bs)) = bs"
proof (induction bs)
  case Nil
  show ?case by (simp add: toString_hex_def toUpperCase_def)
next
  case (Cons b bs)
  have "toUpperCase (toString_hex (b # bs)) =
        map upper_char (byte_to_hex b) @ toUpperCase (toString_hex bs)"
    by (simp add: toString_hex_def toUpperCase_def)
  then show ?case by (simp only: from_hex_upper_byte Cons.IH)
qed

lemma length_toString_hex: "length (toString_hex bs) = 2 * length bs"
  by (induction bs) (simp_all add: toString_hex_def byte_to_hex_def)

lemma length_toUpperCase: "length (toUpperCase s) = length s"
  by (simp add: toUpperCase_def)

lemma take_toString_hex: "take (2 * n) (toString_hex bs) = toString_hex (take n bs)"
proof (induction bs arbitrary: n)
  case Nil
  then show ?case by (simp add: toString_hex_def)
next
  case (Cons b bs)
  show ?case
  proof (cases n)
    case 0
    then show ?thesis by (simp add: toString_hex_def)
  next
    case (Suc m)
    have "take (2 * m) (toString_hex bs) = toString_hex (take m bs)" by (rule Cons.IH)
    then show ?thesis using Suc
      by (simp add: toString_hex_def byte_to_hex_def)
  qed
qed

section \<open>Key generation\<close>

lemma zero_loop_fill:
  "i \<le> count \<Longrightarrow> count < length buf \<Longrightarrow>
   zero_loop i count buf =
     Inr (take (i + 1) buf @ replicate (count - i) 0 @ drop (count + 1) buf)"
proof (induction i count buf rule: zero_loop.induct)
  case (1 i count buf)
  show ?case
  proof (cases "i < count")
    case False
    with "1.prems" show ?thesis by (simp add: zero_loop.simps)
  next
    case True
    have w: "writeUInt8 buf 0 (i + 1) = Inr (buf[i + 1 := 0])"
      using True "1.prems" by (simp add: writeUInt8_def)
    have "zero_loop (i + 1) count (buf[i + 1 := 0]) =
      Inr (take (i + 1 + 1) (buf[i + 1 := 0]) @ replicate (count - (i + 1)) 0
           @ drop (count + 1) (buf[i + 1 := 0]))"
      using "1.IH"[OF True, of "buf[i + 1 := 0]"] True "1.prems" by simp
    moreover have "take (i + 1 + 1) (buf[i + 1 := 0]) = take (i + 1) buf @ [0]"
      using True "1.prems" by (simp add: take_Suc_conv_app_nth)
    moreover have "replicate (count - i) (0::byte) = 0 # replicate (count - (i + 1)) 0"
      using True by (cases "count - i") auto
    ultimately show ?thesis
      using True w by (subst zero_loop.simps) (simp add: bindE_def)
  qed
qed

lemma generateHostAddrStateKey_bytes:
  assumes "decodeAccountID co A = Inr acc"
  shows "generateHostAddrStateKey co mem A =
     Inr (toUpperCase (toString_hex ([0x45, 0x56, 0x52, 0x03] @ replicate 8 0 @ acc)))"
  using assms
  by (simp add: generateHostAddrStateKey_def writeUInt8_def allocUnsafe_def bindE_def
      zero_loop_fill HOST_ADDR_KEY_ZERO_COUNT_def from_utf8_def EVERNODE_PREFIX_def upt_rec
      STATE_KEY_TYPES_HOST_ADDR_def)

lemma generateTransfereeAddrStateKey_bytes:
  assumes "decodeAccountID co A = Inr acc"
  shows "generateTransfereeAddrStateKey co mem A =
     Inr (toUpperCase (toString_hex ([0x45, 0x56, 0x52, 0x04] @ replicate 8 0 @ acc)))"
  using assms
  by (simp add: generateTransfereeAddrStateKey_def writeUInt8_def allocUnsafe_def bindE_def
      zero_loop_fill TRANSFEREE_ADDR_KEY_ZERO_COUNT_def from_utf8_def EVERNODE_PREFIX_def
      upt_rec STATE_KEY_TYPES_TRANSFEREE_ADDR_def)

lemma generateCandidateOwnerStateKey_bytes:
  assumes "decodeAccountID co A = Inr acc"
  shows "generateCandidateOwnerStateKey co mem A =
     Inr (toUpperCase (toString_hex ([0x45, 0x56, 0x52, 0x05] @ replicate 8 0 @ acc)))"
  using assms
  by (simp add: generateCandidateOwnerStateKey_def writeUInt8_def allocUnsafe_def bindE_def
      zero_loop_fill CANDIDATE_OWNER_KEY_ZERO_COUNT_def from_utf8_def EVERNODE_PREFIX_def
      upt_rec STATE_KEY_TYPES_CANDIDATE_OWNER_def)

lemma getHookStateIndex_bytes:
  assumes "decodeAccountID co a = Inr acc"
  shows "getHookStateIndex co ec mem a key (Some ns) =
     Inr (toUpperCase (toString_hex
       (take 32 (sha512 co ([0x00, 0x76] @ acc @ from_hex key @ from_hex ns)))))"
  using assms take_toString_hex[of 32]
  by (simp add: getHookStateIndex_def writeInt16BE_def allocUnsafe_def bindE_def
      HOOK_STATE_LEDGER_TYPE_PREFIX_def createHash_def update_def digest_hex_def
      substring_def upt_rec)

section \<open>Base64 round-trip\<close>

lemma unbase64_char:
  assumes "n < 64"
  shows "unbase64 (base64_char n) = Some n"
proof -
  consider "n < 26" | "26 \<le> n" "n < 52" | "52 \<le> n" "n < 62" | "n = 62" | "n = 63"
    using assms by linarith
  then show ?thesis
  proof cases
    case 1
    then have "base64_char n = char_of (n + 65)" and "(n + 65) mod 256 = n + 65"
      by (simp_all add: base64_char_def)
    then show ?thesis using 1 by (simp add: unbase64_def)
  next
    case 2
    then have "base64_char n = char_of (n + 71)" and "(n + 71) mod 256 = n + 71"
      by (simp_all add: base64_char_def)
    then show ?thesis using 2 by (simp add: unbase64_def)
  next
    case 3
    then have "base64_char n = char_of (n - 4)" and "(n - 4) mod 256 = n - 4"
      by (simp_all add: base64_char_def)
    then show ?thesis using 3 by (auto simp add: unbase64_def Let_def)
  next
    case 4
    then show ?thesis by (simp add: unbase64_def base64_char_def)
  next
    case 5
    then show ?thesis by (simp add: unbase64_def base64_char_def)
  qed
qed

lemma base64_char_not_pad: "n < 64 \<Longrightarrow> base64_char n \<noteq> CHR ''=''"
proof
  assume "n < 64" and "base64_char n = CHR ''=''"
  then have "unbase64 (CHR ''='') = Some n"
    using unbase64_char [of n] by simp
  then show False by (simp add: unbase64_def)
qed

lemma sextets_char: "n < 64 \<Longrightarrow> sextets (base64_char n # s) = n # sextets s"
  by (simp add: sextets_def base64_char_not_pad unbase64_char)

lemma sextets_pad: "sextets (CHR ''='' # s) = []"
  by (simp add: sextets_def)

lemma sextets_Nil: "sextets [] = []"
  by (simp add: sextets_def)

lemma from_base64_sextets: "from_base64 s = sextets_to_bytes (sextets s)"
  by (simp add: from_base64_def sextets_def)

lemma byte_below: "unat (b :: byte) < 256"
  using unsigned_less[of b, where ?'a = nat] by simp

lemma sextet_bounds:
  fixes a b c :: nat
  assumes "a < 256" "b < 256" "c < 256"
  shows "a div 4 < 64" "a mod 4 * 16 + b div 16 < 64" "b mod 16 * 4 + c div 64 < 64"
    "c mod 64 < 64" "a mod 4 * 16 < 64" "b mod 16 * 4 < 64"
proof -
  have a4: "a mod 4 < 4" and b16: "b mod 16 < 16" by simp_all
  have bd: "b div 16 < 16" and cd: "c div 64 < 4" using assms by simp_all
  show "a div 4 < 64" using assms by simp
  show "a mod 4 * 16 + b div 16 < 64" using a4 bd by linarith
  show "b mod 16 * 4 + c div 64 < 64" using b16 cd by linarith
  show "c mod 64 < 64" by simp
  show "a mod 4 * 16 < 64" using a4 by linarith
  show "b mod 16 * 4 < 64" using b16 by linarith
qed

lemma sextet_arith:
  fixes a b c :: nat
  assumes "a < 256" "b < 256" "c < 256"
  shows
    "a div 4 * 4 + (a mod 4 * 16 + b div 16) div 16 = a"
    "(a mod 4 * 16 + b div 16) mod 16 * 16 + (b mod 16 * 4 + c div 64) div 4 = b"
    "(b mod 16 * 4 + c div 64) mod 4 * 64 + c mod 64 = c"
    "a div 4 * 4 + (a mod 4 * 16) div 16 = a"
    "(a mod 4 * 16 + b div 16) mod 16 * 16 + (b mod 16 * 4) div 4 = b"
proof -
  have b16: "b div 16 < 16" and c64: "c div 64 < 4" using assms by simp_all
  have 1: "(a mod 4 * 16 + b div 16) div 16 = a mod 4" using b16 by simp
  have 2: "(a mod 4 * 16 + b div 16) mod 16 = b div 16" using b16 by simp
  have 3: "(b mod 16 * 4 + c div 64) div 4 = b mod 16" using c64 by simp
  have 4: "(b mod 16 * 4 + c div 64) mod 4 = c div 64" using c64 by simp
  have 5: "(b mod 16 * 4) div 4 = b mod 16" by simp
  have 6: "(a mod 4 * 16) div 16 = a mod 4" by simp
  show "a div 4 * 4 + (a mod 4 * 16 + b div 16) div 16 = a" unfolding 1 by presburger
  show "(a mod 4 * 16 + b div 16) mod 16 * 16 + (b mod 16 * 4 + c div 64) div 4 = b"
    unfolding 2 3 by presburger
  show "(b mod 16 * 4 + c div 64) mod 4 * 64 + c mod 64 = c" unfolding 4 by presburger
  show "a div 4 * 4 + (a mod 4 * 16) div 16 = a" unfolding 6 by presburger
  show "(a mod 4 * 16 + b div 16) mod 16 * 16 + (b mod 16 * 4) div 4 = b"
    unfolding 2 5 by presburger
qed

lemma of_nat_unat_byte: "of_nat (unat b) = (b :: byte)"
  by simp

lemma from_base64_toString_base64: "from_base64 (toString_base64 bs) = bs"
proof (induction bs rule: toString_base64.induct)
  case (1 a b c rest)
  note bd = sextet_bounds [OF byte_below [of a] byte_below [of b] byte_below [of c]]
  note ar = sextet_arith [OF byte_below [of a] byte_below [of b] byte_below [of c]]
  have "sextets (toString_base64 (a # b # c # rest)) =
      unat a div 4 # (unat a mod 4 * 16 + unat b div 16)
      # (unat b mod 16 * 4 + unat c div 64) # unat c mod 64
      # sextets (toString_base64 rest)"
    by (simp only: toString_base64.simps append_Cons append_Nil sextets_char bd)
  then have "from_base64 (toString_base64 (a # b # c # rest)) =
      [of_nat (unat a), of_nat (unat b), of_nat (unat c)]
      @ from_base64 (toString_base64 rest)"
    by (simp only: from_base64_sextets sextets_to_bytes.simps ar)
  then show ?case by (simp only: "1.IH" of_nat_unat_byte append_Cons append_Nil)
next
  case (2 a b)
  note bd = sextet_bounds [OF byte_below [of a] byte_below [of b] byte_below [of b]]
  note ar = sextet_arith [OF byte_below [of a] byte_below [of b] byte_below [of b]]
  have "sextets (toString_base64 [a, b]) =
      [unat a div 4, unat a mod 4 * 16 + unat b div 16, unat b mod 16 * 4]"
    by (simp only: toString_base64.simps sextets_char sextets_pad bd)
  then have "from_base64 (toString_base64 [a, b]) = [of_nat (unat a), of_nat (unat b)]"
    by (simp only: from_base64_sextets sextets_to_bytes.simps ar)
  then show ?case by (simp only: of_nat_unat_byte)
next
  case (3 a)
  note bd = sextet_bounds [OF byte_below [of a] byte_below [of a] byte_below [of a]]
  note ar = sextet_arith [OF byte_below [of a] byte_below [of a] byte_below [of a]]
  have "sextets (toString_base64 [a]) = [unat a div 4, unat a mod 4 * 16]"
    by (simp only: toString_base64.simps sextets_char sextets_pad bd)
  then have "from_base64 (toString_base64 [a]) = [of_nat (unat a)]"
    by (simp only: from_base64_sextets sextets_to_bytes.simps ar)
  then show ?case by (simp only: of_nat_unat_byte)
next
  case 4
  show ?case by (simp add: from_base64_sextets sextets_Nil)
qed

lemma char_of_byte: "char_of (unat (of_char c :: byte)) = c"
proof -
  have "unat (of_nat (of_char c) :: byte) = of_char c"
    by (simp add: unat_of_nat)
  then have "unat (of_char c :: byte) = of_char c"
    by (simp only: of_nat_of_char)
  then show ?thesis by simp
qed


lemma hexToASCII_upper_hex: "hexToASCII (toUpperCase (toString_hex (from_utf8 s))) = s"
  by (simp add: hexToASCII_def from_hex_toUpperCase from_utf8_def char_of_byte o_def)

text \<open>
  C6. For an address that the codec decodes to a 20-byte account id, each of the three
  address-keyed generators returns the upper-case hexadecimal text of the 32 bytes
  \<open>EVR\<close>, the kind tag (3, 4 or 5), eight zero bytes and the account id. Whatever the
  tag, these bytes start with \<open>EVR\<close> and the tag and end with the account id, and the
  text decodes back to them. The result does not depend on what the freshly allocated
  buffer held.
\<close>

theorem address_state_key_layout:
  assumes "decodeAccountID co A = Inr acc" and "length acc = 20"
  shows "generateHostAddrStateKey co mem A =
           Inr (toUpperCase (toString_hex ([0x45, 0x56, 0x52, 3] @ replicate 8 0 @ acc)))
       \<and> generateTransfereeAddrStateKey co mem A =
           Inr (toUpperCase (toString_hex ([0x45, 0x56, 0x52, 4] @ replicate 8 0 @ acc)))
       \<and> generateCandidateOwnerStateKey co mem A =
           Inr (toUpperCase (toString_hex ([0x45, 0x56, 0x52, 5] @ replicate 8 0 @ acc)))
       \<and> length ([0x45, 0x56, 0x52, tag] @ replicate 8 0 @ acc) = 32
       \<and> take 4 ([0x45, 0x56, 0x52, tag] @ replicate 8 0 @ acc) = from_utf8 EVERNODE_PREFIX @ [tag]
       \<and> drop 12 ([0x45, 0x56, 0x52, tag] @ replicate 8 0 @ acc) = acc
       \<and> length (toUpperCase (toString_hex ([0x45, 0x56, 0x52, tag] @ replicate 8 0 @ acc))) = 64
       \<and> from_hex (toUpperCase (toString_hex ([0x45, 0x56, 0x52, tag] @ replicate 8 0 @ acc)))
           = [0x45, 0x56, 0x52, tag] @ replicate 8 0 @ acc"
proof -
  have host: "generateHostAddrStateKey co mem A =
      Inr (toUpperCase (toString_hex ([0x45, 0x56, 0x52, 3] @ replicate 8 0 @ acc)))"
    using generateHostAddrStateKey_bytes [OF assms(1)] by simp
  have transferee: "generateTransfereeAddrStateKey co mem A =
      Inr (toUpperCase (toString_hex ([0x45, 0x56, 0x52, 4] @ replicate 8 0 @ acc)))"
    using generateTransfereeAddrStateKey_bytes [OF assms(1)] by simp
  have owner: "generateCandidateOwnerStateKey co mem A =
      Inr (toUpperCase (toString_hex ([0x45, 0x56, 0x52, 5] @ replicate 8 0 @ acc)))"
    using generateCandidateOwnerStateKey_bytes [OF assms(1)] by simp
  have len: "length ([0x45, 0x56, 0x52, tag] @ replicate 8 0 @ acc) = 32"
    using assms(2) by simp
  have front: "take 4 ([0x45, 0x56, 0x52, tag] @ replicate 8 0 @ acc)
      = from_utf8 EVERNODE_PREFIX @ [tag]"
    by (simp add: from_utf8_def EVERNODE_PREFIX_def)
  have tail_eq: "drop 12 ([0x45, 0x56, 0x52, tag] @ replicate 8 0 @ acc) = acc"
    by simp
  have chars: "length (toUpperCase (toString_hex ([0x45, 0x56, 0x52, tag] @ replicate 8 0 @ acc)))
      = 64"
    using len by (simp only: length_toUpperCase length_toString_hex)
  show ?thesis
    using host transferee owner len front tail_eq chars
    by (simp only: from_hex_toUpperCase simp_thms)
qed

theorem address_state_key_layout_witness:
  "decodeAccountID sample_co genesis_address = Inr genesis_account_id
   \<and> length genesis_account_id = 20
   \<and> generateHostAddrStateKey sample_co sample_mem genesis_address =
       Inr ''455652030000000000000000B5F762798A53D543A014CAF8B297CFF8F2F937E8''
   \<and> generateTransfereeAddrStateKey sample_co sample_mem genesis_address =
       Inr ''455652040000000000000000B5F762798A53D543A014CAF8B297CFF8F2F937E8''
   \<and> generateCandidateOwnerStateKey sample_co sample_mem genesis_address =
       Inr ''455652050000000000000000B5F762798A53D543A014CAF8B297CFF8F2F937E8''"
proof -
  have dec: "decodeAccountID sample_co genesis_address = Inr genesis_account_id"
    by (simp add: sample_co_def)
  have len: "length genesis_account_id = 20"
    by (simp add: genesis_account_id_def)
  have text3: "toUpperCase (toString_hex ([0x45, 0x56, 0x52, 3] @ replicate 8 0 @ genesis_account_id))
      = ''455652030000000000000000B5F762798A53D543A014CAF8B297CFF8F2F937E8''"
    by code_simp
  have text4: "toUpperCase (toString_hex ([0x45, 0x56, 0x52, 4] @ replicate 8 0 @ genesis_account_id))
      = ''455652040000000000000000B5F762798A53D543A014CAF8B297CFF8F2F937E8''"
    by code_simp
  have text5: "toUpperCase (toString_hex ([0x45, 0x56, 0x52, 5] @ replicate 8 0 @ genesis_account_id))
      = ''455652050000000000000000B5F762798A53D543A014CAF8B297CFF8F2F937E8''"
    by code_simp
  show ?thesis
    using address_state_key_layout [OF dec len, of sample_mem] dec len
    by (simp only: text3 text4 text5 simp_thms)
qed

text \<open>
  C5. \<open>getHookStateIndex\<close> feeds the hash the two bytes \<open>00 76\<close> of the ledger entry
  type, the decoded account id, the bytes of the state key and the bytes of the
  namespace, in this order, and returns the first 32 bytes of the digest as upper-case
  hexadecimal text: 64 characters when the digest has at least 32 bytes, as SHA-512
  has. The result is a function of the three arguments alone: it does not depend on
  what the freshly allocated buffer held, and an omitted namespace is the default one.
\<close>

theorem hook_state_index_digest:
  assumes "decodeAccountID co hookAccount = Inr acc"
    and "32 \<le> length (sha512 co ([0x00, 0x76] @ acc @ from_hex stateKey @ from_hex ns))"
  shows "getHookStateIndex co ec mem hookAccount stateKey (Some ns) =
           Inr (toUpperCase (toString_hex
             (take 32 (sha512 co ([0x00, 0x76] @ acc @ from_hex stateKey @ from_hex ns)))))
       \<and> length (toUpperCase (toString_hex
             (take 32 (sha512 co ([0x00, 0x76] @ acc @ from_hex stateKey @ from_hex ns))))) = 64
       \<and> getHookStateIndex co ec mem' hookAccount stateKey (Some ns) =
           getHookStateIndex co ec mem hookAccount stateKey (Some ns)
       \<and> getHookStateIndex co ec mem hookAccount stateKey None =
           getHookStateIndex co ec mem hookAccount stateKey (Some (HOOK_NAMESPACE ec))"
proof -
  have idx: "getHookStateIndex co ec m hookAccount stateKey (Some ns) =
      Inr (toUpperCase (toString_hex
        (take 32 (sha512 co ([0x00, 0x76] @ acc @ from_hex stateKey @ from_hex ns)))))" for m
    using getHookStateIndex_bytes [OF assms(1)] by simp
  have chars: "length (toUpperCase (toString_hex
      (take 32 (sha512 co ([0x00, 0x76] @ acc @ from_hex stateKey @ from_hex ns))))) = 64"
    using assms(2) by (simp add: length_toUpperCase length_toString_hex)
  have dflt: "getHookStateIndex co ec mem hookAccount stateKey None =
      getHookStateIndex co ec mem hookAccount stateKey (Some (HOOK_NAMESPACE ec))"
    by (simp add: getHookStateIndex_def)
  show ?thesis
    using idx [of mem] idx [of mem'] chars dflt by simp
qed

theorem hook_state_index_digest_witness:
  "decodeAccountID sample_co genesis_address = Inr genesis_account_id
   \<and> 32 \<le> length (sha512 sample_co ([0x00, 0x76] @ genesis_account_id
                 @ from_hex (sample_keys HOST_COUNT) @ from_hex (HOOK_NAMESPACE sample_ec)))
   \<and> getHookStateIndex sample_co sample_ec sample_mem genesis_address (sample_keys HOST_COUNT)
        (Some (HOOK_NAMESPACE sample_ec)) =
       Inr ''0076B5F762798A53D543A014CAF8B297CFF8F2F937E845565232000000000000''"
proof -
  have dec: "decodeAccountID sample_co genesis_address = Inr genesis_account_id"
    by (simp add: sample_co_def)
  have len: "32 \<le> length (sha512 sample_co ([0x00, 0x76] @ genesis_account_id
      @ from_hex (sample_keys HOST_COUNT) @ from_hex (HOOK_NAMESPACE sample_ec)))"
    by (simp add: sample_co_def)
  have digest_text: "toUpperCase (toString_hex (take 32 (sha512 sample_co ([0x00, 0x76]
      @ genesis_account_id @ from_hex (sample_keys HOST_COUNT)
      @ from_hex (HOOK_NAMESPACE sample_ec)))))
      = ''0076B5F762798A53D543A014CAF8B297CFF8F2F937E845565232000000000000''"
    by code_simp
  show ?thesis
    using hook_state_index_digest [OF dec len, of sample_ec sample_mem sample_mem] dec len
    by (simp only: digest_text simp_thms)
qed

section \<open>Lease URIs\<close>

lemma decodeLeaseNftUri_Inr:
  assumes "decodeLeaseNftUri co ec hexUri = Inr d"
  shows "\<exists>index xfl text.
      readUInt16BE (from_hex hexUri) (length (LEASE_TOKEN_PREFIX_HEX ec) div 2) = Inr index
    \<and> readBigInt64BE (from_hex hexUri) (length (LEASE_TOKEN_PREFIX_HEX ec) div 2 + 2 + 16)
        = Inr xfl
    \<and> xfl_toString co xfl = Inr text
    \<and> d = \<lparr> leaseIndex = index,
            halfTos = slice (from_hex hexUri) (length (LEASE_TOKEN_PREFIX_HEX ec) div 2 + 2) 16,
            leaseAmount = parseFloat text \<rparr>"
  using assms
  by (auto simp add: decodeLeaseNftUri_def bindE_Inr_iff Let_def split: if_splits)

lemma decodeLeaseTokenUri_Inr:
  assumes "decodeLeaseTokenUri co ec hexUri = Inr d"
  shows "\<exists>index xfl text.
      readUInt16BE (from_base64 (hexToASCII hexUri)) (length (LEASE_TOKEN_PREFIX_HEX ec) div 2)
        = Inr index
    \<and> readBigInt64BE (from_base64 (hexToASCII hexUri))
          (length (LEASE_TOKEN_PREFIX_HEX ec) div 2 + 2 + 16) = Inr xfl
    \<and> xfl_toString co xfl = Inr text
    \<and> d = \<lparr> leaseIndex = index,
            halfTos = slice (from_base64 (hexToASCII hexUri))
                        (length (LEASE_TOKEN_PREFIX_HEX ec) div 2 + 2) 16,
            leaseAmount = parseFloat text \<rparr>"
  using assms
  by (auto simp add: decodeLeaseTokenUri_def bindE_Inr_iff Let_def split: if_splits)

text \<open>What the half hash is in every descriptor: the bytes from the end of the lease
  index up to offset 16 of the whole buffer, at most 14 of them.\<close>

lemma halfTos_window:
  assumes "decodeLeaseNftUri co ec hexUri = Inr d"
  shows "halfTos d = slice (from_hex hexUri) (length (LEASE_TOKEN_PREFIX_HEX ec) div 2 + 2) 16"
    and "length (halfTos d) \<le> 14"
proof -
  from decodeLeaseNftUri_Inr [OF assms]
  show w: "halfTos d =
      slice (from_hex hexUri) (length (LEASE_TOKEN_PREFIX_HEX ec) div 2 + 2) 16"
    by auto
  show "length (halfTos d) \<le> 14"
    unfolding w by (simp add: slice_def)
qed

lemma halfTos_window_token:
  assumes "decodeLeaseTokenUri co ec hexUri = Inr d"
  shows "halfTos d = slice (from_base64 (hexToASCII hexUri))
                       (length (LEASE_TOKEN_PREFIX_HEX ec) div 2 + 2) 16"
    and "length (halfTos d) \<le> 14"
proof -
  from decodeLeaseTokenUri_Inr [OF assms]
  show w: "halfTos d = slice (from_base64 (hexToASCII hexUri))
      (length (LEASE_TOKEN_PREFIX_HEX ec) div 2 + 2) 16"
    by auto
  show "length (halfTos d) \<le> 14"
    unfolding w by (simp add: slice_def)
qed

subsection \<open>The sample lease URI\<close>

lemma sample_nft_uri_bytes: "from_hex sample_nft_uri = sample_lease_bytes"
  by (simp add: sample_nft_uri_def sample_lease_bytes_def unhex_def)

lemma sample_token_uri_bytes: "from_base64 (hexToASCII sample_token_uri) = sample_lease_bytes"
  by (simp only: sample_token_uri_def hexToASCII_upper_hex from_base64_toString_base64)

lemma sample_prefix_length: "length (LEASE_TOKEN_PREFIX_HEX sample_ec) = 16"
  by (simp add: sample_ec_def)

lemma sample_lease_index: "readUInt16BE sample_lease_bytes 8 = Inr 1"
  by (simp add: readUInt16BE_def read_be_def be_nat_def sample_lease_bytes_def)

lemma sample_lease_xfl: "readBigInt64BE sample_lease_bytes 26 = Inr 6089866696204910592"
  by (simp add: readBigInt64BE_def read_be_def be_nat_def sample_lease_bytes_def bindE_def)

lemma sample_lease_text: "xfl_toString sample_co 6089866696204910592 = Inr ''1''"
  by (simp add: sample_co_def)

lemma sample_lease_halfTos:
  "slice sample_lease_bytes 10 16 = [0xA0, 0xA1, 0xA2, 0xA3, 0xA4, 0xA5]"
  by (simp add: slice_def sample_lease_bytes_def)

lemma decodeLeaseNftUri_sample:
  "decodeLeaseNftUri sample_co sample_ec sample_nft_uri =
     Inr \<lparr> leaseIndex = 1, halfTos = [0xA0, 0xA1, 0xA2, 0xA3, 0xA4, 0xA5],
           leaseAmount = ParseFloat ''1'' \<rparr>"
  by (simp add: decodeLeaseNftUri_def sample_prefix_length sample_nft_uri_bytes
      sample_lease_index sample_lease_xfl sample_lease_text sample_lease_halfTos
      bindE_Inr parseFloat_def)

lemma decodeLeaseTokenUri_sample:
  "decodeLeaseTokenUri sample_co sample_ec sample_token_uri =
     Inr \<lparr> leaseIndex = 1, halfTos = [0xA0, 0xA1, 0xA2, 0xA3, 0xA4, 0xA5],
           leaseAmount = ParseFloat ''1'' \<rparr>"
  by (simp add: decodeLeaseTokenUri_def sample_prefix_length sample_token_uri_bytes
      sample_lease_index sample_lease_xfl sample_lease_text sample_lease_halfTos
      bindE_Inr parseFloat_def)

text \<open>
  C2. At the lease URI whose bytes are the prefix \<open>evrlease\<close>, the index 1, the half
  hash \<open>A0\<close> to \<open>AF\<close> and the scaled value of 1, both decoders return as \<open>halfTos\<close>
  the six bytes \<open>A0\<close> to \<open>A5\<close>, where the sixteen bytes after the lease index are
  \<open>A0\<close> to \<open>AF\<close>.
\<close>

theorem halfTos_six_bytes_at_sample:
  "decodeLeaseNftUri sample_co sample_ec sample_nft_uri =
     Inr \<lparr> leaseIndex = 1, halfTos = [0xA0, 0xA1, 0xA2, 0xA3, 0xA4, 0xA5],
           leaseAmount = ParseFloat ''1'' \<rparr>
   \<and> decodeLeaseTokenUri sample_co sample_ec sample_token_uri =
     Inr \<lparr> leaseIndex = 1, halfTos = [0xA0, 0xA1, 0xA2, 0xA3, 0xA4, 0xA5],
           leaseAmount = ParseFloat ''1'' \<rparr>
   \<and> from_hex sample_nft_uri = sample_lease_bytes
   \<and> from_base64 (hexToASCII sample_token_uri) = sample_lease_bytes
   \<and> take 16 (drop (8 + 2) sample_lease_bytes) =
       [0xA0, 0xA1, 0xA2, 0xA3, 0xA4, 0xA5, 0xA6, 0xA7,
        0xA8, 0xA9, 0xAA, 0xAB, 0xAC, 0xAD, 0xAE, 0xAF]"
  by (simp add: decodeLeaseNftUri_sample decodeLeaseTokenUri_sample sample_nft_uri_bytes
      sample_token_uri_bytes)
    (simp add: sample_lease_bytes_def)

text \<open>
  C3, as stated, fails: at the sample lease URI the codec gives the text \<open>1\<close> and the
  descriptor of either decoder holds the number parsed from it, not the text.
\<close>

theorem leaseAmount_not_text_at_sample:
  "xfl_toString sample_co 6089866696204910592 = Inr ''1''
   \<and> map_sum id leaseAmount (decodeLeaseNftUri sample_co sample_ec sample_nft_uri)
       = Inr (ParseFloat ''1'')
   \<and> map_sum id leaseAmount (decodeLeaseTokenUri sample_co sample_ec sample_token_uri)
       = Inr (ParseFloat ''1'')
   \<and> ParseFloat ''1'' \<noteq> DecimalText ''1''"
  by (simp add: decodeLeaseNftUri_sample decodeLeaseTokenUri_sample sample_lease_text)

text \<open>
  C3, amended. Whenever a decoder returns a descriptor, the signed 64-bit big-endian
  value at offset prefix length + 18 of the decoded buffer was read, the codec gave a
  decimal text for it, and \<open>leaseAmount\<close> is \<open>parseFloat\<close> of that text: a number, and
  never the text itself.
\<close>

theorem leaseAmount_is_parseFloat_of_codec_text:
  "(decodeLeaseNftUri co ec hexUri = Inr d \<longrightarrow>
      (\<exists>xfl text.
         readBigInt64BE (from_hex hexUri) (length (LEASE_TOKEN_PREFIX_HEX ec) div 2 + 2 + 16)
           = Inr xfl
       \<and> xfl_toString co xfl = Inr text
       \<and> leaseAmount d = parseFloat text
       \<and> leaseAmount d \<noteq> DecimalText text))
   \<and> (decodeLeaseTokenUri co ec hexUri = Inr d \<longrightarrow>
      (\<exists>xfl text.
         readBigInt64BE (from_base64 (hexToASCII hexUri))
           (length (LEASE_TOKEN_PREFIX_HEX ec) div 2 + 2 + 16) = Inr xfl
       \<and> xfl_toString co xfl = Inr text
       \<and> leaseAmount d = parseFloat text
       \<and> leaseAmount d \<noteq> DecimalText text))"
proof (intro conjI impI)
  assume "decodeLeaseNftUri co ec hexUri = Inr d"
  from decodeLeaseNftUri_Inr [OF this]
  show "\<exists>xfl text.
         readBigInt64BE (from_hex hexUri) (length (LEASE_TOKEN_PREFIX_HEX ec) div 2 + 2 + 16)
           = Inr xfl
       \<and> xfl_toString co xfl = Inr text
       \<and> leaseAmount d = parseFloat text
       \<and> leaseAmount d \<noteq> DecimalText text"
    by (auto simp add: parseFloat_def)
next
  assume "decodeLeaseTokenUri co ec hexUri = Inr d"
  from decodeLeaseTokenUri_Inr [OF this]
  show "\<exists>xfl text.
         readBigInt64BE (from_base64 (hexToASCII hexUri))
           (length (LEASE_TOKEN_PREFIX_HEX ec) div 2 + 2 + 16) = Inr xfl
       \<and> xfl_toString co xfl = Inr text
       \<and> leaseAmount d = parseFloat text
       \<and> leaseAmount d \<noteq> DecimalText text"
    by (auto simp add: parseFloat_def)
qed

theorem leaseAmount_is_parseFloat_of_codec_text_witness:
  "decodeLeaseNftUri sample_co sample_ec sample_nft_uri =
     Inr \<lparr> leaseIndex = 1, halfTos = [0xA0, 0xA1, 0xA2, 0xA3, 0xA4, 0xA5],
           leaseAmount = ParseFloat ''1'' \<rparr>
   \<and> (\<exists>xfl text.
         readBigInt64BE (from_hex sample_nft_uri)
           (length (LEASE_TOKEN_PREFIX_HEX sample_ec) div 2 + 2 + 16) = Inr xfl
       \<and> xfl_toString sample_co xfl = Inr text
       \<and> ParseFloat ''1'' = parseFloat text
       \<and> ParseFloat ''1'' \<noteq> DecimalText text)"
proof -
  have run: "decodeLeaseNftUri sample_co sample_ec sample_nft_uri =
     Inr \<lparr> leaseIndex = 1, halfTos = [0xA0, 0xA1, 0xA2, 0xA3, 0xA4, 0xA5],
           leaseAmount = ParseFloat ''1'' \<rparr>"
    by (rule decodeLeaseNftUri_sample)
  show ?thesis
    using leaseAmount_is_parseFloat_of_codec_text
      [of sample_co sample_ec sample_nft_uri
          "\<lparr> leaseIndex = 1, halfTos = [0xA0, 0xA1, 0xA2, 0xA3, 0xA4, 0xA5],
             leaseAmount = ParseFloat ''1'' \<rparr>"] run
    by simp
qed


section \<open>Host address state\<close>

lemma read_be_Inr_iff:
  "read_be w buf off = Inr x \<longleftrightarrow> off + w \<le> length buf \<and> x = be_nat (take w (drop off buf))"
  by (auto simp add: read_be_def)

lemma read_be_short: "length buf < off + w \<Longrightarrow> read_be w buf off = Inl RangeError"
  by (simp add: read_be_def)

lemma read_be_fits: "off + w \<le> length buf \<Longrightarrow> read_be w buf off = Inr (be_nat (take w (drop off buf)))"
  by (simp add: read_be_def)

lemma map_of_set_prop: "map_of (set_prop ps k v) k = Some v"
  by (induction ps) auto

lemmas read_defs = readUInt8_def readUInt16BE_def readUInt32BE_def readBigUInt64BE_def

lemmas host_offsets = HOST_TOKEN_ID_OFFSET_def HOST_COUNTRY_CODE_OFFSET_def
  HOST_RESERVED_OFFSET_def HOST_DESCRIPTION_OFFSET_def HOST_REG_LEDGER_OFFSET_def
  HOST_REG_FEE_OFFSET_def HOST_TOT_INS_COUNT_OFFSET_def HOST_ACT_INS_COUNT_OFFSET_def
  HOST_HEARTBEAT_TIMESTAMP_OFFSET_def HOST_VERSION_OFFSET_def HOST_REG_TIMESTAMP_OFFSET_def
  HOST_TRANSFER_FLAG_OFFSET_def HOST_LAST_VOTE_CANDIDATE_IDX_OFFSET_def
  HOST_LAST_VOTE_TIMESTAMP_OFFSET_def HOST_SUPPORT_VOTE_FLAG_OFFSET_def

lemma be_nat_zeros: "be_nat (replicate k 0) = 0"
proof -
  have "foldl (\<lambda>acc b. 256 * acc + unat b) 0 (replicate k (0 :: byte)) = 0"
    by (induction k) simp_all
  then show ?thesis by (simp add: be_nat_def)
qed

lemma read_be_zeros:
  "read_be w (replicate n 0) off = (if off + w \<le> n then Inr 0 else Inl RangeError)"
  by (simp add: read_be_def be_nat_zeros)

lemma js_Number_0: "js_Number 0 = 0"
  by (simp add: js_Number_def)

lemma sample_host_key_address:
  "encodeAccountID sample_co (slice_from sample_host_key 12) = Inr genesis_address"
  by (simp add: slice_from_def sample_host_key_def sample_co_def genesis_account_id_def)

text \<open>Whenever the decoder returns, the data has at least 125 bytes, since the last
  mandatory field is the byte at offset 124, and the record holds the registration
  timestamp.\<close>

lemma decodeHostAddressState_returns:
  assumes "decodeHostAddressState co stateKeyBuf stateDataBuf = Inr r"
  shows "125 \<le> length stateDataBuf"
    and "map_of r ''registrationTimestamp'' =
           Some (JNumber (js_Number (int (be_nat (take 8 (drop 103 stateDataBuf))))))"
proof -
  from assms obtain data where
    flag: "readUInt8 stateDataBuf HOST_SUPPORT_VOTE_FLAG_OFFSET \<noteq> Inl RangeError"
    and rest: "(if HOST_REG_TIMESTAMP_OFFSET < length stateDataBuf
      then bindE (readBigUInt64BE stateDataBuf HOST_REG_TIMESTAMP_OFFSET) (\<lambda>registrationTimestamp.
        Inr (set_prop data ''registrationTimestamp''
              (JNumber (js_Number (int registrationTimestamp)))))
      else Inr data) = Inr r"
    unfolding decodeHostAddressState_def Let_def bindE_Inr_iff by force
  from flag show len: "125 \<le> length stateDataBuf"
    by (simp add: readUInt8_def read_be_def HOST_SUPPORT_VOTE_FLAG_OFFSET_def split: if_splits)
  then have "readBigUInt64BE stateDataBuf HOST_REG_TIMESTAMP_OFFSET =
      Inr (be_nat (take 8 (drop 103 stateDataBuf)))"
    by (simp add: readBigUInt64BE_def read_be_def HOST_REG_TIMESTAMP_OFFSET_def)
  with rest len show "map_of r ''registrationTimestamp'' =
      Some (JNumber (js_Number (int (be_nat (take 8 (drop 103 stateDataBuf))))))"
    by (auto simp add: bindE_Inr HOST_REG_TIMESTAMP_OFFSET_def map_of_set_prop)
qed

lemma decodeHostAddressState_short:
  assumes "length stateDataBuf < 125"
  shows "\<exists>e. decodeHostAddressState co stateKeyBuf stateDataBuf = Inl e"
proof (cases "decodeHostAddressState co stateKeyBuf stateDataBuf")
  case (Inl e)
  then show ?thesis by blast
next
  case (Inr r)
  from decodeHostAddressState_returns(1) [OF Inr] assms show ?thesis by simp
qed


text \<open>
  C7. On 103 zero bytes, which hold every field up to the version and no registration
  timestamp, the decoder throws a RangeError: the read of the transfer flag at offset
  111 does not fit. On 125 zero bytes, the shortest data for which it returns, the
  record has the property \<open>registrationTimestamp\<close>, as its last one.
\<close>

theorem host_address_state_at_minimum_lengths:
  "decodeHostAddressState sample_co sample_host_key (replicate 103 0) = Inl RangeError
   \<and> map_sum id (map fst) (decodeHostAddressState sample_co sample_host_key (replicate 125 0))
       = Inr [''address'', ''uriTokenId'', ''countryCode'', ''description'',
              ''registrationLedger'', ''registrationFee'', ''maxInstances'',
              ''activeInstances'', ''lastHeartbeatIndex'', ''version'', ''isATransferer'',
              ''lastVoteCandidateIdx'', ''lastVoteTimestamp'', ''supportVoteSent'',
              ''registrationTimestamp'']
   \<and> map_sum id (\<lambda>r. map_of r ''registrationTimestamp'')
         (decodeHostAddressState sample_co sample_host_key (replicate 125 0))
       = Inr (Some (JNumber 0))"
  by (simp add: decodeHostAddressState_def sample_host_key_address read_defs read_be_zeros
      host_offsets bindE_Inr bindE_Inl Let_def js_Number_0)

section \<open>Numbers\<close>

lemma bit_length_le: "n < 2 ^ k \<Longrightarrow> bit_length n \<le> k"
proof (induction k arbitrary: n)
  case 0
  then show ?case by (simp add: bit_length.simps)
next
  case (Suc k)
  show ?case
  proof (cases "n = 0")
    case True
    then show ?thesis by (simp add: bit_length.simps)
  next
    case False
    from Suc.prems have "n div 2 < 2 ^ k" by simp
    then have "bit_length (n div 2) \<le> k" by (rule Suc.IH)
    with False show ?thesis by (subst bit_length.simps) simp
  qed
qed

lemma bit_length_ge: "2 ^ k \<le> n \<Longrightarrow> Suc k \<le> bit_length n"
proof (induction k arbitrary: n)
  case 0
  then show ?case by (subst bit_length.simps) simp
next
  case (Suc k)
  then have "2 ^ k \<le> n div 2" by simp
  then have "Suc k \<le> bit_length (n div 2)" by (rule Suc.IH)
  moreover have "n \<noteq> 0"
  proof
    assume "n = 0"
    with Suc.prems have "(2::nat) ^ Suc k \<le> 0" by simp
    then show False by simp
  qed
  ultimately show ?case by (subst bit_length.simps) simp
qed

text \<open>A BigInt below \<open>2^53\<close> in absolute value is a double: \<open>Number\<close> keeps it.
  Beyond that it rounds: \<open>2^53 + 1\<close> becomes \<open>2^53\<close>.\<close>

lemma js_Number_exact:
  assumes "\<bar>x\<bar> < 2 ^ 53"
  shows "js_Number x = x"
proof -
  have "nat \<bar>x\<bar> < 2 ^ 53" using assms by (simp add: nat_less_iff)
  then have "bit_length (nat \<bar>x\<bar>) - 53 = 0"
    using bit_length_le [of "nat \<bar>x\<bar>" 53] by simp
  then show ?thesis
    by (simp add: js_Number_def Let_def) (simp add: sgn_if)
qed

lemma js_Number_rounds: "js_Number 9007199254740993 = 9007199254740992"
proof -
  have "bit_length 9007199254740993 \<le> 54"
    by (rule bit_length_le) simp
  moreover have "Suc 53 \<le> bit_length 9007199254740993"
    by (rule bit_length_ge) simp
  ultimately have "bit_length 9007199254740993 - 53 = 1" by simp
  then show ?thesis
    by (simp add: js_Number_def Let_def)
qed

lemma decodeHostAddressState_total:
  assumes "125 \<le> length stateDataBuf"
    and "encodeAccountID co (slice_from stateKeyBuf 12) = Inr address"
  shows "\<exists>r. decodeHostAddressState co stateKeyBuf stateDataBuf = Inr r"
  using assms
  by (simp add: decodeHostAddressState_def read_defs read_be_fits host_offsets bindE_Inr Let_def)

section \<open>Dispatch on the key\<close>

lemma compare_eq_0_iff: "compare a b = 0 \<longleftrightarrow> a = b"
  by (induction a b rule: compare.induct) auto

lemma prefix_compare_fits:
  "4 \<le> length stateKey \<Longrightarrow>
   prefix_compare ec k stateKey = Inr (compare (from_hex (HookStateKeys ec k)) (take 4 stateKey))"
  by (simp add: prefix_compare_def compare_range_def slice_def)

lemma prefix_compare_short:
  "length stateKey < 4 \<Longrightarrow> prefix_compare ec k stateKey = Inl RangeError"
  by (simp add: prefix_compare_def compare_range_def)

text \<open>A key shorter than four bytes makes the first test of either function throw a
  RangeError.\<close>

lemma decodeStateData_short_key:
  "length stateKey < 4 \<Longrightarrow> decodeStateData co ec mem stateKey stateData = Inl RangeError"
  by (simp add: decodeStateData_def prefix_compare_short bindE_Inl)

lemma decodeStateKey_short_key:
  "length stateKey < 4 \<Longrightarrow> decodeStateKey ec stateKey = Inl RangeError"
  by (simp add: decodeStateKey_def prefix_compare_short bindE_Inl)

text \<open>\<open>decodeStateData\<close> rejects every unrecognized key of at least four bytes.\<close>

lemma decodeStateData_unrecognized:
  assumes "4 \<le> length stateKey" and "unrecognized ec stateKey"
  shows "decodeStateData co ec mem stateKey stateData = Inl (ValidationError ''Invalid state key.'')"
  using assms(2)
  by (simp add: decodeStateData_def prefix_compare_fits [OF assms(1)] bindE_Inr
      key_compare_def compare_eq_0_iff unrecognized_def prefix_kinds_def well_known_keys_def)

text \<open>\<open>decodeStateKey\<close> gives every unrecognized key of at least four bytes the type
  \<open>configuration\<close>: the key differs from \<open>HOST_HEARTBEAT_FREQ\<close>, so that operand of the
  last test is a number other than 0.\<close>

lemma decodeStateKey_unrecognized:
  assumes "4 \<le> length stateKey" and "unrecognized ec stateKey"
  shows "decodeStateKey ec stateKey = Inr (key_info (hex_upper stateKey) CONFIGURATION)"
  using assms(2)
  by (simp add: decodeStateKey_def prefix_compare_fits [OF assms(1)] bindE_Inr
      key_compare_def compare_eq_0_iff unrecognized_def prefix_kinds_def well_known_keys_def
      truthy_number_def)

text \<open>The only key for which \<open>decodeStateKey\<close> throws a validation error is
  \<open>HOST_HEARTBEAT_FREQ\<close> itself.\<close>

lemma decodeStateKey_ValidationError:
  assumes "decodeStateKey ec stateKey = Inl (ValidationError msg)"
  shows "stateKey = from_hex (HookStateKeys ec HOST_HEARTBEAT_FREQ)"
proof (cases "length stateKey < 4")
  case True
  with assms show ?thesis by (simp add: decodeStateKey_short_key)
next
  case False
  then have fits: "4 \<le> length stateKey" by simp
  from assms have "\<not> truthy_number (key_compare ec HOST_HEARTBEAT_FREQ stateKey)"
    by (simp add: decodeStateKey_def prefix_compare_fits [OF fits] bindE_Inr Let_def
        split: if_splits)
  then show ?thesis
    by (simp add: truthy_number_def key_compare_def compare_eq_0_iff)
qed

lemma hex_upper_zeros: "hex_upper (replicate n 0) = replicate (2 * n) CHR ''0''"
  by (induction n)
    (simp_all add: hex_upper_def toUpperCase_def toString_hex_def byte_to_hex_def hex_digit_def
      upper_char_def)

lemma nonzero_head_not_zeros: "x \<noteq> 0 \<Longrightarrow> x # xs \<noteq> replicate n (0 :: byte)"
  by (cases n) auto

lemma unrecognized_zeros: "unrecognized sample_ec (replicate 32 0)"
  by (simp add: unrecognized_def prefix_kinds_def well_known_keys_def sample_ec_def unhex_def
      nonzero_head_not_zeros)

text \<open>
  C1. The key of 32 zero bytes has none of the five prefixes and is none of the twenty
  well-known keys. \<open>decodeStateData\<close> throws the validation error for it, whatever the
  data; \<open>decodeStateKey\<close> returns key information of type \<open>configuration\<close>.
\<close>

theorem unrecognized_key_typed_configuration:
  "unrecognized sample_ec (replicate 32 0)
   \<and> decodeStateData sample_co sample_ec sample_mem (replicate 32 0) stateData =
       Inl (ValidationError ''Invalid state key.'')
   \<and> decodeStateKey sample_ec (replicate 32 0) =
       Inr (JObject [(''key'', JString (replicate 64 CHR ''0'')),
                     (''type'', JString ''configuration'')])"
  using decodeStateData_unrecognized [OF _ unrecognized_zeros, of sample_co sample_mem stateData]
    decodeStateKey_unrecognized [OF _ unrecognized_zeros]
  by (simp add: unrecognized_zeros key_info_def JType_def hex_upper_zeros)

section \<open>The tenant client\<close>

text \<open>A block whose only statement is an expression returns \<open>undefined\<close>, so a
  \<open>find\<close> with such a callback selects nothing.\<close>

lemma js_find_block_expression: "js_find (\<lambda>x. Block [ExprStmt (e x)]) xs = None"
  by (induction xs) (simp_all add: js_find_def)

lemma sample_getLeaseHost: "getLeaseHost sample_te sample_ec ''rHost'' = Inr ''rHost''"
  by (simp add: getLeaseHost_def sample_te_def sample_ec_def sample_host_token_def
      js_find_def startsWith_def bindE_Inr)

text \<open>
  C9, as stated, fails. With \<open>options.leaseOfferIndex\<close> set to the index of an offer
  that exists, the call for a host that is not registered throws \<open>HOST_INVALID\<close>, and
  the call on a ledger whose offers cannot be fetched throws the error of the fetch.
  With \<open>options.leaseOfferIndex\<close> set to 0 the first offer is bought.
\<close>

theorem lease_offer_index_other_outcomes:
  "acquireLeaseSubmit sample_te sample_ec ''rNobody'' (JString ''requirement'')
     (JObject [(''leaseOfferIndex'', JString ''OFFER1'')]) =
     Inl (Rejected HOST_INVALID ''Host is not registered.'')
   \<and> acquireLeaseSubmit sample_te_offline sample_ec ''rHost'' (JString ''requirement'')
       (JObject [(''leaseOfferIndex'', JString ''OFFER1'')]) =
       Inl (External ''getLeaseOffers'')
   \<and> acquireLeaseSubmit sample_te sample_ec ''rHost'' (JString ''requirement'')
       (JObject [(''leaseOfferIndex'', JNumber 0)]) =
       Inr (JObject [(''id'', JString ''TX1'')])"
proof -
  have nobody: "getLeaseHost sample_te sample_ec ''rNobody'' =
      Inl (Rejected HOST_INVALID ''Host is not registered.'')"
    by (simp add: getLeaseHost_def sample_te_def js_find_def bindE_Inr)
  have unregistered: "acquireLeaseSubmit sample_te sample_ec ''rNobody'' (JString ''requirement'')
      (JObject [(''leaseOfferIndex'', JString ''OFFER1'')]) =
      Inl (Rejected HOST_INVALID ''Host is not registered.'')"
    by (simp add: acquireLeaseSubmit_def nobody bindE_Inl)
  have host: "getLeaseHost sample_te_offline sample_ec ''rHost'' = Inr ''rHost''"
    by (simp add: getLeaseHost_def sample_te_offline_def sample_te_def sample_ec_def
        sample_host_token_def js_find_def startsWith_def bindE_Inr)
  have offline: "acquireLeaseSubmit sample_te_offline sample_ec ''rHost'' (JString ''requirement'')
      (JObject [(''leaseOfferIndex'', JString ''OFFER1'')]) = Inl (External ''getLeaseOffers'')"
    by (simp add: acquireLeaseSubmit_def host default_param_def bindE_Inr)
      (simp add: sample_te_offline_def bindE_Inl)
  have zero: "acquireLeaseSubmit sample_te sample_ec ''rHost'' (JString ''requirement'')
      (JObject [(''leaseOfferIndex'', JNumber 0)]) = Inr (JObject [(''id'', JString ''TX1'')])"
    by (simp add: acquireLeaseSubmit_def sample_getLeaseHost default_param_def bindE_Inr)
      (simp add: sample_te_def bindE_Inr)
  from unregistered offline zero show ?thesis
    by simp
qed

text \<open>
  C9, amended. When the host is found, the offers are fetched and
  \<open>options.leaseOfferIndex\<close> holds a value that counts as true, the lookup selects no
  offer from any list, and \<open>acquireLeaseSubmit\<close> throws \<open>NO_OFFER\<close> with the text
  \<open>No offers available.\<close>, whatever the offers are.
\<close>

theorem lease_offer_index_selects_nothing:
  assumes "getLeaseHost te ec hostAddress = Inr hostAcc"
    and "getLeaseOffers te hostAcc = Inr uriTokenOffers"
    and "get_prop (default_param options (JObject [])) ''leaseOfferIndex'' = Inr selected"
    and "truthy selected"
  shows "js_find (\<lambda>uriOffer. Block [ExprStmt (JBool (JString (index uriOffer) = selected))])
           (offers :: uri_token list) = None
       \<and> acquireLeaseSubmit te ec hostAddress requirement options =
           Inl (Rejected NO_OFFER ''No offers available.'')"
proof -
  have none: "js_find (\<lambda>uriOffer. Block [ExprStmt (JBool (JString (index uriOffer) = selected))])
      xs = None" for xs :: "uri_token list"
    by (rule js_find_block_expression)
  have "acquireLeaseSubmit te ec hostAddress requirement options =
      Inl (Rejected NO_OFFER ''No offers available.'')"
    using assms
    by (cases uriTokenOffers) (simp_all add: acquireLeaseSubmit_def bindE_Inr none Let_def)
  with none show ?thesis by simp
qed

theorem lease_offer_index_selects_nothing_witness:
  "getLeaseHost sample_te sample_ec ''rHost'' = Inr ''rHost''
   \<and> getLeaseOffers sample_te ''rHost'' = Inr (Some [sample_offer])
   \<and> index sample_offer = ''OFFER1''
   \<and> get_prop (default_param (JObject [(''leaseOfferIndex'', JString ''OFFER1'')]) (JObject []))
        ''leaseOfferIndex'' = Inr (JString ''OFFER1'')
   \<and> truthy (JString ''OFFER1'')
   \<and> acquireLeaseSubmit sample_te sample_ec ''rHost'' (JString ''requirement'')
        (JObject [(''leaseOfferIndex'', JString ''OFFER1'')]) =
       Inl (Rejected NO_OFFER ''No offers available.'')
   \<and> acquireLeaseSubmit sample_te sample_ec ''rHost'' (JString ''requirement'') (JObject []) =
       Inr (JObject [(''id'', JString ''TX1'')])"
proof -
  have offers: "getLeaseOffers sample_te ''rHost'' = Inr (Some [sample_offer])"
    by (simp add: sample_te_def)
  have selected: "get_prop (default_param (JObject [(''leaseOfferIndex'', JString ''OFFER1'')])
      (JObject [])) ''leaseOfferIndex'' = Inr (JString ''OFFER1'')"
    by (simp add: default_param_def)
  have truthy: "truthy (JString ''OFFER1'')"
    by simp
  have first: "acquireLeaseSubmit sample_te sample_ec ''rHost'' (JString ''requirement'')
      (JObject []) = Inr (JObject [(''id'', JString ''TX1'')])"
    by (simp add: acquireLeaseSubmit_def sample_getLeaseHost default_param_def bindE_Inr)
      (simp add: sample_te_def bindE_Inr)
  show ?thesis
    using lease_offer_index_selects_nothing [OF sample_getLeaseHost offers selected truthy,
        of "[sample_offer]" "JString ''requirement''"]
      sample_getLeaseHost offers selected first
    by (simp add: sample_offer_def)
qed

lemma sample_extendLease:
  "extendLease sample_te sample_co sample_ec ''rHost'' 3 ''LEASE1''
     (JObject [(''timeout'', JNumber 5000)]) =
   WatchExtend [JObject [(''id'', JString ''TX2'')], JNumber 7000000,
                JObject [(''timeout'', JNumber 5000)]]"
proof -
  have tokens: "getURITokens sample_te (tenantAddress sample_te) = Inr (Some [sample_lease_token])"
    by (simp add: sample_te_def)
  have found: "js_find (\<lambda>n. Expression (JBool (index n = ''LEASE1''))) [sample_lease_token]
      = Some sample_lease_token"
    by (simp add: js_find_def sample_lease_token_def)
  have uri: "URI sample_lease_token = sample_token_uri"
    by (simp add: sample_lease_token_def)
  have submit: "extendLeaseSubmit sample_te sample_ec ''rHost'' 3 (ParseFloat ''1'') ''LEASE1''
      (JObject [(''timeout'', JNumber 5000)]) = Inr (JObject [(''id'', JString ''TX2'')])"
    by (simp add: extendLeaseSubmit_def sample_getLeaseHost default_param_def bindE_Inr)
      (simp add: sample_te_def)
  have ledger: "ledgerIndex sample_te = JNumber 7000000"
    by (simp add: sample_te_def)
  show ?thesis
    by (simp add: extendLease_def tokens found uri decodeLeaseTokenUri_sample submit ledger
        default_param_def)
qed

text \<open>
  C10. When \<open>extendLease\<close> reaches the watch, the second argument of the call is the
  ledger index and the caller's options are the third, which \<open>watchExtendResponse\<close>
  does not bind: its fail timer is armed from the ledger index alone. With a ledger
  index that is a number, or \<open>undefined\<close>, the delay is the default of 60000
  milliseconds, whatever the caller's options hold.
\<close>

theorem extend_watch_default_timeout:
  assumes "extendLease te co ec hostAddress moments instanceName options = WatchExtend args"
    and "ledgerIndex te = JNumber n \<or> ledgerIndex te = JUndefined"
  shows "argument args 1 = ledgerIndex te
       \<and> argument args 2 = default_param options (JObject [])
       \<and> watchExtendResponse_timeout_call args =
           watchExtendResponse_timeout (argument args 0) (ledgerIndex te)
       \<and> watchExtendResponse_timeout_call args = Inr (JNumber 60000)"
proof -
  from assms(1) obtain tx where
    args: "args = [tx, ledgerIndex te, default_param options (JObject [])]"
    by (auto simp add: extendLease_def Let_def
        split: sum.splits option.splits if_splits)
  have "watchExtendResponse_timeout tx (ledgerIndex te) = Inr (JNumber 60000)"
    using assms(2)
    by (auto simp add: watchExtendResponse_timeout_def default_param_def bindE_Inr js_or_def
        DEFAULT_WAIT_TIMEOUT_def)
  then show ?thesis
    by (simp add: args watchExtendResponse_timeout_call_def numeral_2_eq_2)
qed

theorem extend_watch_default_timeout_witness:
  "extendLease sample_te sample_co sample_ec ''rHost'' 3 ''LEASE1''
     (JObject [(''timeout'', JNumber 5000)]) =
   WatchExtend [JObject [(''id'', JString ''TX2'')], JNumber 7000000,
                JObject [(''timeout'', JNumber 5000)]]
   \<and> ledgerIndex sample_te = JNumber 7000000
   \<and> watchExtendResponse_timeout_call
        [JObject [(''id'', JString ''TX2'')], JNumber 7000000,
         JObject [(''timeout'', JNumber 5000)]] = Inr (JNumber 60000)
   \<and> watchExtendResponse_timeout (JObject [(''id'', JString ''TX2'')])
        (JObject [(''timeout'', JNumber 5000)]) = Inr (JNumber 5000)"
proof -
  have ledger_value: "ledgerIndex sample_te = JNumber 7000000"
    by (simp add: sample_te_def)
  then have ledger: "ledgerIndex sample_te = JNumber 7000000 \<or> ledgerIndex sample_te = JUndefined"
    by (rule disjI1)
  have requested: "watchExtendResponse_timeout (JObject [(''id'', JString ''TX2'')])
      (JObject [(''timeout'', JNumber 5000)]) = Inr (JNumber 5000)"
    by (simp add: watchExtendResponse_timeout_def default_param_def bindE_Inr js_or_def)
  have armed: "watchExtendResponse_timeout_call
      [JObject [(''id'', JString ''TX2'')], JNumber 7000000,
       JObject [(''timeout'', JNumber 5000)]] = Inr (JNumber 60000)"
    using extend_watch_default_timeout [OF sample_extendLease ledger] by blast
  show ?thesis
    using sample_extendLease ledger_value armed requested by blast
qed

section \<open>Watching for the response\<close>










lemma extend_loop_timeout:
  assumes ledger: "bindE (get_prop tx ''details'') (\<lambda>details. get_prop details ''ledger_index'')
      = Inr li"
    and "now = query_start (getAccountTrx we li) 1000 k"
    and "\<forall>j. k \<le> j \<and> query_start (getAccountTrx we li) 1000 j < deadline \<longrightarrow>
      bindE (txList (getAccountTrx we li j)) (extend_scan we tx_id) = Inr None
      \<or> deadline \<le> query_start (getAccountTrx we li) 1000 j + latency (getAccountTrx we li j)"
  shows "extend_loop we tx tx_id deadline now k = Settles deadline (Reject_timeout EXTEND_ERR)"
  using assms(2,3)
proof (induction "deadline - now" arbitrary: now k rule: less_induct)
  case less
  show ?case
  proof (cases "deadline \<le> now")
    case True
    then show ?thesis
      by (subst extend_loop.simps) simp
  next
    case False
    have step: "extend_loop we tx tx_id deadline (now + latency (getAccountTrx we li k) + 1000)
        (Suc k) = Settles deadline (Reject_timeout EXTEND_ERR)"
    proof (rule less.hyps)
      show "deadline - (now + latency (getAccountTrx we li k) + 1000) < deadline - now"
        using False by simp
      show "now + latency (getAccountTrx we li k) + 1000 =
          query_start (getAccountTrx we li) 1000 (Suc k)"
        using less.prems(1) by simp
      show "\<forall>j. Suc k \<le> j \<and> query_start (getAccountTrx we li) 1000 j < deadline \<longrightarrow>
          bindE (txList (getAccountTrx we li j)) (extend_scan we tx_id) = Inr None
          \<or> deadline \<le> query_start (getAccountTrx we li) 1000 j + latency (getAccountTrx we li j)"
        using less.prems(2) by simp
    qed
    from False less.prems
    consider "bindE (txList (getAccountTrx we li k)) (extend_scan we tx_id) = Inr None"
      | "deadline \<le> now + latency (getAccountTrx we li k)"
        "bindE (txList (getAccountTrx we li k)) (extend_scan we tx_id) \<noteq> Inr None"
      by (metis le_refl not_le_imp_less)
    then show ?thesis
    proof cases
      case 1
      with False step show ?thesis
        by (subst extend_loop.simps) (simp add: ledger Let_def)
    next
      case 2
      with False show ?thesis
        by (subst extend_loop.simps)
          (simp add: ledger Let_def split: sum.split option.split)
    qed
  qed
qed


lemma watchExtendResponse_timeout:
  assumes "get_prop tx ''id'' = Inr tx_id"
    and "get_prop (default_param options (JObject [])) ''timeout'' = Inr timeout"
    and "bindE (get_prop tx ''details'') (\<lambda>details. get_prop details ''ledger_index'')
      = Inr ledger_index"
    and "history = getAccountTrx we ledger_index"
    and "deadline = setTimeout_delay (toNumber we) (js_or timeout (JNumber DEFAULT_WAIT_TIMEOUT))"
    and "\<forall>j. query_start history 1000 j < deadline \<longrightarrow>
      bindE (txList (history j)) (extend_scan we tx_id) = Inr None
      \<or> deadline \<le> query_start history 1000 j + latency (history j)"
  shows "watchExtendResponse we tx options = Settles deadline (Reject_timeout EXTEND_ERR)"
  using assms extend_loop_timeout [of tx ledger_index 0 we 0 deadline tx_id]
  by (simp add: watchExtendResponse_def watchExtendResponse_timeout_def bindE_Inr)



subsection \<open>The sample history\<close>










lemma sample_latency: "latency (sample_history li k) = 100"
  by (simp add: sample_history_def)

lemma sample_query_start: "query_start (sample_history li) sleep k = k * (100 + sleep)"
  by (induction k) (simp_all add: sample_latency)














end
